theory Spec2Isabelle
  imports Complex_Main
begin

section \<open>Data model\<close>

text \<open>
  The request handlers of the escrow API work on one relational store. A table is the list
  of its rows in insertion order; a row is a record with the columns the handlers read or
  write. Identifiers, statuses and roles are strings, as in the source. Timestamps are
  natural numbers, and \<open>NOW()\<close> is the argument \<open>now\<close> of a handler. Every identifier
  that a handler draws with \<open>uuidv4()\<close> is an argument of the handler, in the order of
  the calls. The statements sent to the store are taken to succeed (the schema is in
  place, the \<open>payouts\<close> table included and found by \<open>SHOW TABLES\<close>), so a \<open>catch\<close>
  branch is reached only when a handler destructures a request body that is absent: the
  body of a request is optional, \<open>None\<close> when \<open>req.body\<close> is undefined.
\<close>

datatype json = JNull | JStr string | JNum rat | JObject "(string \<times> json) list"

record user =
  u_id :: string
  u_email :: string
  u_role :: string
  u_kyc_status :: string

record escrow =
  e_id :: string
  e_buyer_id :: string
  e_seller_id :: string
  e_amount :: rat
  e_currency :: string
  e_status :: string
  e_created_at :: nat
  e_updated_at :: nat
  e_seller_proof_url :: "string option"
  e_seller_receipt_number :: "string option"
  e_buyer_proof_url :: "string option"

record payment_intent =
  pi_id :: string
  pi_escrow_id :: string
  pi_method :: "string option"
  pi_pg_reference :: string
  pi_qr_code_url :: "string option"
  pi_status :: string
  pi_paid_at :: "nat option"
  pi_raw_payload :: json

record payout =
  p_id :: string
  p_escrow_id :: string
  p_seller_id :: "string option"
  p_amount :: "rat option"
  p_bank_account :: "string option"
  p_method :: "string option"
  p_status :: string
  p_sent_at :: "nat option"
  p_pg_reference :: "string option"
  p_created_at :: "nat option"

record dispute =
  d_id :: string
  d_escrow_id :: string
  d_opened_by :: string
  d_reason :: string
  d_status :: string
  d_created_at :: nat
  d_updated_at :: "nat option"
  d_resolved_at :: "nat option"

record webhook_event =
  w_id :: string
  w_source :: string
  w_event_type :: string
  w_payload :: json
  w_processed :: bool
  w_created_at :: nat

record audit_log =
  a_id :: string
  a_actor_id :: string
  a_action :: string
  a_entity :: string
  a_entity_id :: string
  a_metadata :: json
  a_created_at :: nat

record db =
  users :: "user list"
  escrow_transactions :: "escrow list"
  payment_intents :: "payment_intent list"
  payouts :: "payout list"
  disputes :: "dispute list"
  webhook_events :: "webhook_event list"
  audit_logs :: "audit_log list"

text \<open>The decoded bearer token that \<open>authenticateJWT\<close> stores in \<open>req.user\<close>.\<close>

record auth_user =
  au_id :: string
  au_email :: string
  au_role :: string

text \<open>
  A response is its HTTP status with the text of its \<open>message\<close> or \<open>error\<close> field; the
  entity echoed beside the message is left out.
\<close>

datatype response = Response (status_code: nat) (message: string)

subsection \<open>JavaScript truthiness of optional body fields\<close>

definition truthy_str :: "string option \<Rightarrow> bool" where
  "truthy_str x = (case x of None \<Rightarrow> False | Some v \<Rightarrow> v \<noteq> [])"

definition truthy_num :: "rat option \<Rightarrow> bool" where
  "truthy_num x = (case x of None \<Rightarrow> False | Some n \<Rightarrow> n \<noteq> 0)"

text \<open>\<open>x || d\<close> on an optional string.\<close>

definition str_or :: "string option \<Rightarrow> string \<Rightarrow> string" where
  "str_or x d = (case x of None \<Rightarrow> d | Some v \<Rightarrow> if v = [] then d else v)"

text \<open>\<open>x || null\<close> on an optional string.\<close>

definition str_or_null :: "string option \<Rightarrow> string option" where
  "str_or_null x = (case x of None \<Rightarrow> None | Some v \<Rightarrow> if v = [] then None else Some v)"

definition num_val :: "rat option \<Rightarrow> rat" where
  "num_val x = (case x of None \<Rightarrow> 0 | Some n \<Rightarrow> n)"

definition json_str :: "string option \<Rightarrow> json" where
  "json_str x = (case x of None \<Rightarrow> JNull | Some v \<Rightarrow> JStr v)"

subsection \<open>Statements on the store\<close>

definition select_user :: "db \<Rightarrow> string \<Rightarrow> user option" where
  "select_user s uid = find (\<lambda>u. u_id u = uid) (users s)"

definition select_escrow :: "db \<Rightarrow> string \<Rightarrow> escrow option" where
  "select_escrow s eid = find (\<lambda>e. e_id e = eid) (escrow_transactions s)"

definition select_dispute :: "db \<Rightarrow> string \<Rightarrow> dispute option" where
  "select_dispute s did = find (\<lambda>d. d_id d = did) (disputes s)"

text \<open>\<open>FROM disputes d JOIN escrow_transactions e ON e.id = d.escrow_id WHERE d.id = ?\<close>,
  first row.\<close>

definition select_dispute_escrow :: "db \<Rightarrow> string \<Rightarrow> (dispute \<times> escrow) option" where
  "select_dispute_escrow s did =
     (case select_dispute s did of
        None \<Rightarrow> None
      | Some d \<Rightarrow>
          (case select_escrow s (d_escrow_id d) of
             None \<Rightarrow> None
           | Some e \<Rightarrow> Some (d, e)))"

definition update_escrow :: "string \<Rightarrow> (escrow \<Rightarrow> escrow) \<Rightarrow> db \<Rightarrow> db" where
  "update_escrow eid f s =
     s\<lparr>escrow_transactions := map (\<lambda>e. if e_id e = eid then f e else e) (escrow_transactions s)\<rparr>"

definition update_dispute :: "string \<Rightarrow> (dispute \<Rightarrow> dispute) \<Rightarrow> db \<Rightarrow> db" where
  "update_dispute did f s =
     s\<lparr>disputes := map (\<lambda>d. if d_id d = did then f d else d) (disputes s)\<rparr>"

definition update_payout :: "string \<Rightarrow> (payout \<Rightarrow> payout) \<Rightarrow> db \<Rightarrow> db" where
  "update_payout pid f s =
     s\<lparr>payouts := map (\<lambda>p. if p_id p = pid then f p else p) (payouts s)\<rparr>"

definition update_payment_intent :: "string \<Rightarrow> (payment_intent \<Rightarrow> payment_intent) \<Rightarrow> db \<Rightarrow> db" where
  "update_payment_intent pid f s =
     s\<lparr>payment_intents := map (\<lambda>p. if pi_id p = pid then f p else p) (payment_intents s)\<rparr>"

definition update_webhook_event :: "string \<Rightarrow> (webhook_event \<Rightarrow> webhook_event) \<Rightarrow> db \<Rightarrow> db" where
  "update_webhook_event wid f s =
     s\<lparr>webhook_events := map (\<lambda>w. if w_id w = wid then f w else w) (webhook_events s)\<rparr>"

definition insert_escrow :: "escrow \<Rightarrow> db \<Rightarrow> db" where
  "insert_escrow e s = s\<lparr>escrow_transactions := escrow_transactions s @ [e]\<rparr>"

definition insert_payment_intent :: "payment_intent \<Rightarrow> db \<Rightarrow> db" where
  "insert_payment_intent p s = s\<lparr>payment_intents := payment_intents s @ [p]\<rparr>"

definition insert_payout :: "payout \<Rightarrow> db \<Rightarrow> db" where
  "insert_payout p s = s\<lparr>payouts := payouts s @ [p]\<rparr>"

definition insert_dispute :: "dispute \<Rightarrow> db \<Rightarrow> db" where
  "insert_dispute d s = s\<lparr>disputes := disputes s @ [d]\<rparr>"

definition insert_webhook_event :: "webhook_event \<Rightarrow> db \<Rightarrow> db" where
  "insert_webhook_event w s = s\<lparr>webhook_events := webhook_events s @ [w]\<rparr>"

text \<open>\<open>INSERT INTO audit_logs (id, actor_id, action, entity, entity_id, metadata, created_at)\<close>\<close>

definition audit ::
  "nat \<Rightarrow> string \<Rightarrow> string \<Rightarrow> string \<Rightarrow> string \<Rightarrow> string \<Rightarrow> json \<Rightarrow> db \<Rightarrow> db" where
  "audit now aid actor action entity entity_id metadata s =
     s\<lparr>audit_logs := audit_logs s @
        [\<lparr>a_id = aid, a_actor_id = actor, a_action = action, a_entity = entity,
          a_entity_id = entity_id, a_metadata = metadata, a_created_at = now\<rparr>]\<rparr>"

text \<open>The check the handlers make on a seller: \<open>SELECT kyc_status FROM users WHERE id = ?\<close>,
  then \<open>sellers.length === 0 || sellers[0].kyc_status !== "verified"\<close>.\<close>

definition kyc_verified :: "db \<Rightarrow> string \<Rightarrow> bool" where
  "kyc_verified s uid =
     (case select_user s uid of None \<Rightarrow> False | Some u \<Rightarrow> u_kyc_status u = ''verified'')"

section \<open>Escrow creation, \<open>POST /api/escrow\<close> with the ids in the body\<close>

record create_body =
  cb_buyer_id :: "string option"
  cb_seller_id :: "string option"
  cb_amount :: "rat option"
  cb_currency :: "string option"

definition escrow_create ::
  "nat \<Rightarrow> string \<Rightarrow> string \<Rightarrow> auth_user \<Rightarrow> create_body option \<Rightarrow> db \<Rightarrow> response \<times> db" where
  "escrow_create now escrowId auditId u body s =
     (case body of
        None \<Rightarrow> (Response 500 ''Internal server error'', s)
      | Some b \<Rightarrow>
          if \<not> truthy_str (cb_buyer_id b) \<or> \<not> truthy_str (cb_seller_id b)
             \<or> \<not> truthy_num (cb_amount b)
          then (Response 400 ''buyer_id, seller_id, and amount are required'', s)
          else if au_role u \<noteq> ''buyer'' \<and> au_role u \<noteq> ''seller''
          then (Response 403 ''Only buyers or sellers can create escrow'', s)
          else
            let s1 = insert_escrow
                       \<lparr>e_id = escrowId,
                        e_buyer_id = str_or (cb_buyer_id b) [],
                        e_seller_id = str_or (cb_seller_id b) [],
                        e_amount = num_val (cb_amount b),
                        e_currency = str_or (cb_currency b) ''IDR'',
                        e_status = ''created'',
                        e_created_at = now,
                        e_updated_at = now,
                        e_seller_proof_url = None,
                        e_seller_receipt_number = None,
                        e_buyer_proof_url = None\<rparr> s;
                s2 = audit now auditId (au_id u) ''create'' ''escrow_transactions'' escrowId
                       (JObject [(''amount'', JNum (num_val (cb_amount b))),
                                 (''currency'', JStr (str_or (cb_currency b) ''IDR''))]) s1
            in (Response 201 ''Escrow created successfully'', s2))"

section \<open>The escrow lifecycle, \<open>/api/escrow/:id/...\<close>\<close>

text \<open>\<open>a ?? b ?? ...\<close>: the first operand that is neither \<open>null\<close> nor \<open>undefined\<close>.\<close>

fun nullish :: "'a option list \<Rightarrow> 'a option" where
  "nullish [] = None"
| "nullish (None # xs) = nullish xs"
| "nullish (Some v # xs) = Some v"

text \<open>\<open>(x ?? "").toString()\<close>\<close>

definition str_val :: "string option \<Rightarrow> string" where
  "str_val x = (case x of None \<Rightarrow> [] | Some v \<Rightarrow> v)"

text \<open>\<open>String.prototype.trim\<close>. A string is the list of the bytes of its UTF-8 encoding, so
  the white space and the line terminators of ECMAScript are these byte sequences: U+0009
  to U+000D and U+0020, U+00A0, U+1680, U+2000 to U+200A, U+2028, U+2029, U+202F, U+205F,
  U+3000 and U+FEFF.\<close>

definition js_white :: "string list" where
  "js_white =
     [[CHR 0x09], [CHR 0x0A], [CHR 0x0B], [CHR 0x0C], [CHR 0x0D], [CHR 0x20],
      [CHR 0xC2, CHR 0xA0],
      [CHR 0xE1, CHR 0x9A, CHR 0x80],
      [CHR 0xE2, CHR 0x80, CHR 0x80], [CHR 0xE2, CHR 0x80, CHR 0x81],
      [CHR 0xE2, CHR 0x80, CHR 0x82], [CHR 0xE2, CHR 0x80, CHR 0x83],
      [CHR 0xE2, CHR 0x80, CHR 0x84], [CHR 0xE2, CHR 0x80, CHR 0x85],
      [CHR 0xE2, CHR 0x80, CHR 0x86], [CHR 0xE2, CHR 0x80, CHR 0x87],
      [CHR 0xE2, CHR 0x80, CHR 0x88], [CHR 0xE2, CHR 0x80, CHR 0x89],
      [CHR 0xE2, CHR 0x80, CHR 0x8A],
      [CHR 0xE2, CHR 0x80, CHR 0xA8], [CHR 0xE2, CHR 0x80, CHR 0xA9],
      [CHR 0xE2, CHR 0x80, CHR 0xAF],
      [CHR 0xE2, CHR 0x81, CHR 0x9F],
      [CHR 0xE3, CHR 0x80, CHR 0x80],
      [CHR 0xEF, CHR 0xBB, CHR 0xBF]]"

text \<open>The first of the sequences \<open>ws\<close> that the string starts with, if any.\<close>

definition leading :: "string list \<Rightarrow> string \<Rightarrow> string option" where
  "leading ws v = find (\<lambda>w. w \<noteq> [] \<and> take (length w) v = w) ws"

text \<open>Dropping such sequences from the front for as long as there is one.\<close>

function strip_leading :: "string list \<Rightarrow> string \<Rightarrow> string" where
  "strip_leading ws v =
     (case leading ws v of
        None \<Rightarrow> v
      | Some w \<Rightarrow> strip_leading ws (drop (length w) v))"
  by pat_completeness auto
termination
proof (relation "measure (\<lambda>(ws, v). length v)")
  show "wf (measure (\<lambda>(ws, v). length v))"
    by simp
next
  fix ws :: "string list" and v w :: string
  assume "leading ws v = Some w"
  then have "w \<noteq> []" and "take (length w) v = w"
    by (auto simp: leading_def find_Some_iff)
  then have "v \<noteq> []" and "0 < length w"
    by auto
  then show "((ws, drop (length w) v), (ws, v)) \<in> measure (\<lambda>(ws, v). length v)"
    by (cases v) auto
qed

declare strip_leading.simps [simp del]

text \<open>White space goes from both ends; the end of the string is the front of its reverse.\<close>

definition js_trim :: "string \<Rightarrow> string" where
  "js_trim v = rev (strip_leading (map rev js_white) (rev (strip_leading js_white v)))"

text \<open>\<open>COALESCE(?, column)\<close>\<close>

definition coalesce :: "'a option \<Rightarrow> 'a option \<Rightarrow> 'a option" where
  "coalesce x y = (case x of None \<Rightarrow> y | Some v \<Rightarrow> Some v)"

subsection \<open>\<open>POST /api/escrow/:id/fund\<close>\<close>

record fund_body =
  fb_method :: "string option"
  fb_payment_method :: "string option"
  fb_paymentMethod :: "string option"
  fb_pg_reference :: "string option"
  fb_pg_ref :: "string option"
  fb_payment_reference :: "string option"
  fb_reference :: "string option"
  fb_qr_code_url :: "string option"
  fb_qrCodeUrl :: "string option"

definition escrow_fund ::
  "nat \<Rightarrow> string \<Rightarrow> string \<Rightarrow> auth_user \<Rightarrow> string \<Rightarrow> fund_body option \<Rightarrow> db \<Rightarrow> response \<times> db" where
  "escrow_fund now paymentId auditId u escrowId body s =
     (case body of
        None \<Rightarrow> (Response 400 ''No request body received'', s)
      | Some b \<Rightarrow>
          let method = str_val (nullish [fb_method b, fb_payment_method b, fb_paymentMethod b]);
              pg_reference = str_val (nullish [fb_pg_reference b, fb_pg_ref b,
                                               fb_payment_reference b, fb_reference b]);
              qr_code_url = str_or_null (nullish [fb_qr_code_url b, fb_qrCodeUrl b])
          in
          if js_trim method = [] \<or> js_trim pg_reference = []
          then (Response 400 ''method and pg_reference are required'', s)
          else
            (case select_escrow s escrowId of
               None \<Rightarrow> (Response 404 ''Escrow not found'', s)
             | Some escrow \<Rightarrow>
                 if e_status escrow \<noteq> ''created''
                 then (Response 400 ''Escrow is not in 'created' state'', s)
                 else
                   let s1 = insert_payment_intent
                              \<lparr>pi_id = paymentId, pi_escrow_id = escrowId,
                               pi_method = Some method, pi_pg_reference = pg_reference,
                               pi_qr_code_url = qr_code_url, pi_status = ''paid'',
                               pi_paid_at = Some now,
                               pi_raw_payload = JObject [(''pg_ref'', JStr pg_reference),
                                                         (''method'', JStr method)]\<rparr> s;
                       s2 = update_escrow escrowId
                              (\<lambda>e. e\<lparr>e_status := ''funded'', e_updated_at := now\<rparr>) s1;
                       s3 = audit now auditId (au_id u) ''fund'' ''escrow_transactions'' escrowId
                              (JObject [(''method'', JStr method),
                                        (''pg_ref'', JStr pg_reference)]) s2
                   in (Response 200 ''Escrow funded successfully'', s3)))"

subsection \<open>\<open>POST /api/escrow/:id/ship\<close>\<close>

record ship_body =
  sb_tracking_number :: "string option"
  sb_tracking_no :: "string option"
  sb_trackingNo :: "string option"
  sb_shipping_receipt :: "string option"
  sb_shipping_receipt_number :: "string option"
  sb_receipt :: "string option"

text \<open>An uploaded file as multer stores it; \<open>f_basename\<close> is \<open>path.basename(file.path)\<close>.\<close>

record upload =
  f_fieldname :: string
  f_originalname :: string
  f_mimetype :: string
  f_size :: nat
  f_basename :: string

definition file_json :: "upload option \<Rightarrow> (string \<times> json) list" where
  "file_json firstFile =
     [(''field'', json_str (str_or_null (map_option f_fieldname firstFile))),
      (''name'', json_str (str_or_null (map_option f_originalname firstFile))),
      (''type'', json_str (str_or_null (map_option f_mimetype firstFile))),
      (''size'', (case firstFile of
                    None \<Rightarrow> JNull
                  | Some f \<Rightarrow> if f_size f = 0 then JNull else JNum (of_nat (f_size f))))]"

text \<open>The handler with the KYC and ownership checks. \<open>baseUrl\<close> is \<open>process.env.BASE_URL || ""\<close>
  and \<open>files\<close> is \<open>req.files\<close> as \<open>shippingUpload.any()\<close> leaves it.\<close>

definition escrow_ship ::
  "nat \<Rightarrow> string \<Rightarrow> string \<Rightarrow> auth_user \<Rightarrow> string \<Rightarrow> upload list \<Rightarrow> ship_body option \<Rightarrow> db
     \<Rightarrow> response \<times> db" where
  "escrow_ship now auditId baseUrl u escrowId files body s =
     (let firstFile = (case files of [] \<Rightarrow> None | f # _ \<Rightarrow> Some f) in
      case body of
        None \<Rightarrow> (Response 400 ''No request body received'', s)
      | Some b \<Rightarrow>
          let tracking_number =
                str_val (nullish [sb_tracking_number b, sb_tracking_no b, sb_trackingNo b,
                                  sb_shipping_receipt b, sb_shipping_receipt_number b,
                                  sb_receipt b]);
              seller_proof_url =
                map_option (\<lambda>f. baseUrl @ ''/uploads/shipping/'' @ f_basename f) firstFile
          in
          if au_role u \<noteq> ''seller''
          then (Response 403 ''Only sellers can mark escrow as shipped'', s)
          else if \<not> kyc_verified s (au_id u)
          then (Response 403 ''Seller is not KYC verified'', s)
          else
            (case select_escrow s escrowId of
               None \<Rightarrow> (Response 404 ''Escrow not found'', s)
             | Some escrow \<Rightarrow>
                 if e_seller_id escrow \<noteq> au_id u
                 then (Response 403 ''You are not the seller of this escrow'', s)
                 else if e_status escrow \<noteq> ''funded''
                 then (Response 400 ''Escrow must be in 'funded' state before shipping'', s)
                 else
                   let s1 = update_escrow escrowId
                              (\<lambda>e. e\<lparr>e_status := ''shipped'',
                                      e_seller_proof_url :=
                                        coalesce seller_proof_url (e_seller_proof_url e),
                                      e_seller_receipt_number :=
                                        coalesce (str_or_null (Some tracking_number))
                                          (e_seller_receipt_number e),
                                      e_updated_at := now\<rparr>) s;
                       s2 = audit now auditId (au_id u) ''ship'' ''escrow_transactions'' escrowId
                              (JObject
                                 [(''tracking_number'',
                                     json_str (str_or_null (Some tracking_number))),
                                  (''file'', JObject (file_json firstFile
                                     @ [(''url'', json_str seller_proof_url)]))]) s1
                   in (Response 200 ''Escrow marked as shipped'', s2)))"

text \<open>The handler of the other copy of the escrow routes, which checks the role only.\<close>

definition escrow_ship_role_only ::
  "nat \<Rightarrow> string \<Rightarrow> auth_user \<Rightarrow> string \<Rightarrow> ship_body option \<Rightarrow> db \<Rightarrow> response \<times> db" where
  "escrow_ship_role_only now auditId u escrowId body s =
     (case body of
        None \<Rightarrow> (Response 400 ''No request body received'', s)
      | Some b \<Rightarrow>
          if au_role u \<noteq> ''seller''
          then (Response 403 ''Only sellers can mark escrow as shipped'', s)
          else
            (case select_escrow s escrowId of
               None \<Rightarrow> (Response 404 ''Escrow not found'', s)
             | Some escrow \<Rightarrow>
                 if e_status escrow \<noteq> ''funded''
                 then (Response 400 ''Escrow must be in 'funded' state before shipping'', s)
                 else
                   let s1 = update_escrow escrowId
                              (\<lambda>e. e\<lparr>e_status := ''shipped'', e_updated_at := now\<rparr>) s;
                       s2 = audit now auditId (au_id u) ''ship'' ''escrow_transactions'' escrowId
                              (JObject [(''tracking_number'',
                                           json_str (str_or_null (sb_tracking_number b)))]) s1
                   in (Response 200 ''Escrow marked as shipped'', s2)))"

subsection \<open>\<open>POST /api/escrow/:id/confirm\<close>\<close>

definition escrow_confirm ::
  "nat \<Rightarrow> string \<Rightarrow> auth_user \<Rightarrow> string \<Rightarrow> db \<Rightarrow> response \<times> db" where
  "escrow_confirm now auditId u escrowId s =
     (if au_role u \<noteq> ''buyer''
      then (Response 403 ''Only buyers can confirm receipt'', s)
      else
        (case select_escrow s escrowId of
           None \<Rightarrow> (Response 404 ''Escrow not found'', s)
         | Some escrow \<Rightarrow>
             if e_buyer_id escrow \<noteq> au_id u
             then (Response 403 ''You are not the buyer of this escrow'', s)
             else if e_status escrow \<noteq> ''shipped''
             then (Response 400 ''Escrow must be in 'shipped' state before confirming'', s)
             else
               let s1 = update_escrow escrowId
                          (\<lambda>e. e\<lparr>e_status := ''confirmed'', e_updated_at := now\<rparr>) s;
                   s2 = audit now auditId (au_id u) ''confirm'' ''escrow_transactions'' escrowId
                          (JObject [(''status'', JStr ''confirmed'')]) s1
               in (Response 200 ''Escrow confirmed successfully'', s2)))"

subsection \<open>\<open>POST /api/escrow/:id/release\<close>, registered twice\<close>

text \<open>The payout row that the admin variant and the dispute resolution insert.\<close>

definition simulated_payout :: "string \<Rightarrow> string \<Rightarrow> payout" where
  "simulated_payout payoutId escrowId =
     \<lparr>p_id = payoutId, p_escrow_id = escrowId, p_seller_id = None, p_amount = None,
      p_bank_account = Some ''1234567890'', p_method = Some ''BI-FAST'', p_status = ''pending'',
      p_sent_at = None, p_pg_reference = None, p_created_at = None\<rparr>"

text \<open>The payout row that the buyer variant and the admin route insert; the amount is the
  subquery \<open>SELECT amount FROM escrow_transactions WHERE id = ?\<close>.\<close>

definition seller_payout :: "nat \<Rightarrow> string \<Rightarrow> string \<Rightarrow> string \<Rightarrow> db \<Rightarrow> payout" where
  "seller_payout now payoutId escrowId sellerId s =
     \<lparr>p_id = payoutId, p_escrow_id = escrowId, p_seller_id = Some sellerId,
      p_amount = map_option e_amount (select_escrow s escrowId),
      p_bank_account = None, p_method = None, p_status = ''pending'',
      p_sent_at = None, p_pg_reference = None, p_created_at = Some now\<rparr>"

text \<open>The first registration: only an admin releases.\<close>

definition escrow_release ::
  "nat \<Rightarrow> string \<Rightarrow> string \<Rightarrow> auth_user \<Rightarrow> string \<Rightarrow> db \<Rightarrow> response \<times> db" where
  "escrow_release now payoutId auditId u escrowId s =
     (if au_role u \<noteq> ''admin''
      then (Response 403 ''Only admins can release escrow funds'', s)
      else
        (case select_escrow s escrowId of
           None \<Rightarrow> (Response 404 ''Escrow not found'', s)
         | Some escrow \<Rightarrow>
             if e_status escrow \<noteq> ''confirmed''
             then (Response 400 ''Escrow must be 'confirmed' before releasing funds'', s)
             else if \<not> kyc_verified s (e_seller_id escrow)
             then (Response 403 ''Seller is not KYC verified'', s)
             else
               let s1 = update_escrow escrowId
                          (\<lambda>e. e\<lparr>e_status := ''released'', e_updated_at := now\<rparr>) s;
                   s2 = insert_payout (simulated_payout payoutId escrowId) s1;
                   s3 = audit now auditId (au_id u) ''release'' ''escrow_transactions'' escrowId
                          (JObject [(''status'', JStr ''released'')]) s2
               in (Response 200 ''Escrow released successfully, payout initiated'', s3)))"

text \<open>The middleware \<open>requireKYCVerified\<close>: it looks up the caller, \<open>req.user.id\<close>, and
  answers itself unless the caller is verified.\<close>

definition requireKYCVerified :: "auth_user \<Rightarrow> db \<Rightarrow> response option" where
  "requireKYCVerified u s =
     (case select_user s (au_id u) of
        None \<Rightarrow> Some (Response 404 ''User not found'')
      | Some usr \<Rightarrow>
          if u_kyc_status usr \<noteq> ''verified''
          then Some (Response 403 ''KYC verification required to perform this action'')
          else None)"

text \<open>The second registration, behind \<open>requireKYCVerified\<close>: the buyer releases.\<close>

definition escrow_release_buyer ::
  "nat \<Rightarrow> string \<Rightarrow> auth_user \<Rightarrow> string \<Rightarrow> db \<Rightarrow> response \<times> db" where
  "escrow_release_buyer now payoutId u escrowId s =
     (case requireKYCVerified u s of
        Some r \<Rightarrow> (r, s)
      | None \<Rightarrow>
          (case select_escrow s escrowId of
             None \<Rightarrow> (Response 404 ''Escrow not found'', s)
           | Some escrow \<Rightarrow>
               if au_id u \<noteq> e_buyer_id escrow
               then (Response 403 ''Only buyer can release funds'', s)
               else if e_status escrow \<noteq> ''confirmed''
               then (Response 400 ''Escrow must be confirmed before release'', s)
               else
                 let s1 = update_escrow escrowId
                            (\<lambda>e. e\<lparr>e_status := ''released'', e_updated_at := now\<rparr>) s;
                     s2 = insert_payout
                            (seller_payout now payoutId escrowId (e_seller_id escrow) s1) s1
                 in (Response 200 ''Funds released and payout initiated'', s2)))"

text \<open>The router tries the handlers registered for a path in the order of registration; a
  handler answers, or passes the request on with \<open>next()\<close>, which is \<open>None\<close> here. When no
  handler answers, Express answers 404.\<close>

fun dispatch :: "(db \<Rightarrow> (response \<times> db) option) list \<Rightarrow> db \<Rightarrow> response \<times> db" where
  "dispatch [] s = (Response 404 ''Not Found'', s)"
| "dispatch (h # hs) s = (case h s of None \<Rightarrow> dispatch hs s | Some r \<Rightarrow> r)"

text \<open>\<open>POST /api/escrow/:id/release\<close> as the router serves it. Neither handler calls
  \<open>next()\<close>: the first registration answers every request, so the second one, the buyer
  variant, is never reached.\<close>

definition post_escrow_release ::
  "nat \<Rightarrow> string \<Rightarrow> string \<Rightarrow> string \<Rightarrow> auth_user \<Rightarrow> string \<Rightarrow> db \<Rightarrow> response \<times> db" where
  "post_escrow_release now payoutId auditId payoutIdB u escrowId s =
     dispatch [\<lambda>s. Some (escrow_release now payoutId auditId u escrowId s),
               \<lambda>s. Some (escrow_release_buyer now payoutIdB u escrowId s)] s"

subsection \<open>\<open>POST /api/escrow/:id/dispute\<close>\<close>

record dispute_body =
  db_reason :: "string option"

definition escrow_dispute ::
  "nat \<Rightarrow> string \<Rightarrow> string \<Rightarrow> auth_user \<Rightarrow> string \<Rightarrow> dispute_body option \<Rightarrow> db
     \<Rightarrow> response \<times> db" where
  "escrow_dispute now disputeId auditId u escrowId body s =
     (case body of
        None \<Rightarrow> (Response 500 ''Internal server error'', s)
      | Some b \<Rightarrow>
          if \<not> truthy_str (db_reason b)
          then (Response 400 ''Reason is required'', s)
          else
            (case select_escrow s escrowId of
               None \<Rightarrow> (Response 404 ''Escrow not found'', s)
             | Some escrow \<Rightarrow>
                 if au_id u \<noteq> e_buyer_id escrow \<and> au_id u \<noteq> e_seller_id escrow
                 then (Response 403 ''Only buyer or seller can open dispute'', s)
                 else if e_status escrow \<notin> set [''funded'', ''shipped'', ''confirmed'']
                 then (Response 400 ''Cannot dispute escrow in current state'', s)
                 else
                   let s1 = insert_dispute
                              \<lparr>d_id = disputeId, d_escrow_id = escrowId,
                               d_opened_by = au_id u, d_reason = str_val (db_reason b),
                               d_status = ''open'', d_created_at = now,
                               d_updated_at = None, d_resolved_at = None\<rparr> s;
                       s2 = audit now auditId (au_id u) ''dispute'' ''disputes'' disputeId
                              (JObject [(''reason'', JStr (str_val (db_reason b)))]) s1
                   in (Response 201 ''Dispute opened successfully'', s2)))"

subsection \<open>\<open>POST /api/escrow/:id/cancel\<close>\<close>

definition escrow_cancel ::
  "nat \<Rightarrow> string \<Rightarrow> auth_user \<Rightarrow> string \<Rightarrow> db \<Rightarrow> response \<times> db" where
  "escrow_cancel now auditId u escrowId s =
     (case select_escrow s escrowId of
        None \<Rightarrow> (Response 404 ''Escrow not found'', s)
      | Some escrow \<Rightarrow>
          if au_id u \<noteq> e_buyer_id escrow \<and> au_id u \<noteq> e_seller_id escrow
          then (Response 403 ''Only buyer or seller can cancel this escrow'', s)
          else if e_status escrow \<noteq> ''created''
          then (Response 400 ''Escrow can only be cancelled before funding'', s)
          else
            let s1 = update_escrow escrowId
                       (\<lambda>e. e\<lparr>e_status := ''cancelled'', e_updated_at := now\<rparr>) s;
                s2 = audit now auditId (au_id u) ''cancel'' ''escrow_transactions'' escrowId
                       (JObject [(''status'', JStr ''cancelled'')]) s1
            in (Response 200 ''Escrow cancelled successfully'', s2))"

section \<open>Dispute resolution, \<open>POST /api/disputes/:id/resolve\<close>\<close>

record resolve_body =
  rb_decision :: "string option"
  rb_note :: "string option"

text \<open>The end of the handler, common to the three decisions: the dispute is resolved and the
  action is logged.\<close>

definition resolve_finish ::
  "nat \<Rightarrow> string \<Rightarrow> auth_user \<Rightarrow> string \<Rightarrow> resolve_body \<Rightarrow> db \<Rightarrow> response \<times> db" where
  "resolve_finish now auditId u disputeId b s =
     (let s1 = update_dispute disputeId
                 (\<lambda>d. d\<lparr>d_status := ''resolved'', d_resolved_at := Some now\<rparr>) s;
          s2 = audit now auditId (au_id u) ''resolve_dispute'' ''disputes'' disputeId
                 (JObject [(''decision'', JStr (str_val (rb_decision b))),
                           (''note'', json_str (str_or_null (rb_note b)))]) s1
      in (Response 200 ''Dispute resolved successfully'', s2))"

definition disputes_resolve ::
  "nat \<Rightarrow> string \<Rightarrow> string \<Rightarrow> auth_user \<Rightarrow> string \<Rightarrow> resolve_body option \<Rightarrow> db
     \<Rightarrow> response \<times> db" where
  "disputes_resolve now payoutId auditId u disputeId body s =
     (case body of
        None \<Rightarrow> (Response 500 ''Internal server error'', s)
      | Some b \<Rightarrow>
          if au_role u \<noteq> ''admin''
          then (Response 403 ''Only admins can resolve disputes'', s)
          else if \<not> truthy_str (rb_decision b)
                  \<or> str_val (rb_decision b) \<notin> set [''favor_buyer'', ''favor_seller'', ''rejected'']
          then (Response 400
                  (''Decision must be 'favor_buyer', 'favor_seller', or 'rejected'' @ [CHR 0x27]), s)
          else
            (case select_dispute_escrow s disputeId of
               None \<Rightarrow> (Response 404 ''Dispute not found'', s)
             | Some (dispute, e) \<Rightarrow>
                 if d_status dispute \<noteq> ''open''
                 then (Response 400 ''Dispute already resolved or closed'', s)
                 else if str_val (rb_decision b) = ''favor_seller''
                 then
                   if \<not> kyc_verified s (e_seller_id e)
                   then (Response 403 ''Seller is not KYC verified. Cannot release funds.'', s)
                   else
                     let s1 = update_escrow (d_escrow_id dispute)
                                (\<lambda>e. e\<lparr>e_status := ''released'', e_updated_at := now\<rparr>) s;
                         s2 = insert_payout
                                (simulated_payout payoutId (d_escrow_id dispute)) s1
                     in resolve_finish now auditId u disputeId b s2
                 else resolve_finish now auditId u disputeId b s))"

section \<open>The admin routes, \<open>/api/admin/...\<close>\<close>

text \<open>The middleware \<open>requireAdmin\<close>.\<close>

definition requireAdmin :: "auth_user \<Rightarrow> response option" where
  "requireAdmin u =
     (if au_role u \<noteq> ''admin'' then Some (Response 403 ''Admin access required'') else None)"

subsection \<open>\<open>POST /api/admin/disputes/:id/reject\<close>\<close>

definition admin_disputes_reject ::
  "nat \<Rightarrow> string \<Rightarrow> auth_user \<Rightarrow> string \<Rightarrow> db \<Rightarrow> response \<times> db" where
  "admin_disputes_reject now auditId u ident s =
     (case requireAdmin u of
        Some r \<Rightarrow> (r, s)
      | None \<Rightarrow>
          (case select_dispute_escrow s ident of
             None \<Rightarrow> (Response 404 ''Dispute not found'', s)
           | Some (rec, e) \<Rightarrow>
               let alreadyRejected = (d_status rec = ''rejected'');
                   escrowCompleted = (e_status e = ''completed'')
               in
               if alreadyRejected \<and> escrowCompleted
               then (Response 200 ''Dispute already rejected and escrow completed'', s)
               else
                 let s1 = update_escrow (d_escrow_id rec)
                            (\<lambda>e. e\<lparr>e_status := ''completed'', e_updated_at := now\<rparr>) s;
                     s2 = update_dispute ident
                            (\<lambda>d. d\<lparr>d_status := ''rejected'', d_updated_at := Some now\<rparr>) s1;
                     s3 = audit now auditId (au_id u) ''dispute_reject'' ''disputes'' ident
                            (JObject [(''escrow_id'', JStr (d_escrow_id rec)),
                                      (''to'', JStr ''rejected'')]) s2
                 in (Response 200 ''Dispute rejected; escrow completed'', s3)))"

subsection \<open>\<open>POST /api/admin/disputes/:id/approve\<close>\<close>

definition admin_disputes_approve ::
  "nat \<Rightarrow> string \<Rightarrow> auth_user \<Rightarrow> string \<Rightarrow> db \<Rightarrow> response \<times> db" where
  "admin_disputes_approve now auditId u ident s =
     (case requireAdmin u of
        Some r \<Rightarrow> (r, s)
      | None \<Rightarrow>
          (case select_dispute_escrow s ident of
             None \<Rightarrow> (Response 404 ''Dispute not found'', s)
           | Some (rec, e) \<Rightarrow>
               let alreadyResolved = (d_status rec = ''resolved'');
                   escrowCancelled = (e_status e = ''cancelled'')
               in
               if alreadyResolved \<and> escrowCancelled
               then (Response 200 ''Dispute already approved and escrow cancelled'', s)
               else
                 let s1 = update_escrow (d_escrow_id rec)
                            (\<lambda>e. e\<lparr>e_status := ''cancelled'', e_updated_at := now\<rparr>) s;
                     s2 = update_dispute ident
                            (\<lambda>d. d\<lparr>d_status := ''resolved'', d_updated_at := Some now\<rparr>) s1;
                     s3 = audit now auditId (au_id u) ''dispute_approve'' ''disputes'' ident
                            (JObject [(''escrow_id'', JStr (d_escrow_id rec)),
                                      (''to'', JStr ''resolved'')]) s2
                 in (Response 200 ''Dispute approved; escrow cancelled'', s3)))"

subsection \<open>\<open>POST /api/admin/escrows/:id/release\<close>\<close>

definition admin_escrows_release ::
  "nat \<Rightarrow> string \<Rightarrow> string \<Rightarrow> auth_user \<Rightarrow> string \<Rightarrow> db \<Rightarrow> response \<times> db" where
  "admin_escrows_release now payoutId auditId u escrowId s =
     (case requireAdmin u of
        Some r \<Rightarrow> (r, s)
      | None \<Rightarrow>
          (case select_escrow s escrowId of
             None \<Rightarrow> (Response 404 ''Escrow not found'', s)
           | Some escrow \<Rightarrow>
               if e_status escrow = ''released''
               then (Response 200 ''Escrow already released'', s)
               else if e_status escrow \<noteq> ''confirmed''
               then (Response 400 ''Escrow must be 'confirmed' before release'', s)
               else if \<not> kyc_verified s (e_seller_id escrow)
               then (Response 403 ''Seller is not KYC verified'', s)
               else
                 let s1 = update_escrow escrowId
                            (\<lambda>e. e\<lparr>e_status := ''released'', e_updated_at := now\<rparr>) s;
                     s2 = insert_payout
                            (seller_payout now payoutId escrowId (e_seller_id escrow) s1) s1;
                     s3 = audit now auditId (au_id u) ''release'' ''escrow_transactions'' escrowId
                            (JObject [(''status'', JStr ''released''), (''by'', JStr ''admin'')]) s2
                 in (Response 200 ''Escrow released by admin, payout initiated'', s3)))"

subsection \<open>\<open>POST /api/admin/escrows/:id/complete\<close>\<close>

text \<open>\<open>SELECT id, status FROM payouts WHERE escrow_id = ? ORDER BY created_at DESC LIMIT 1\<close>.
  In the descending order a row without \<open>created_at\<close> comes after every row that has one.
  SQL leaves the order of rows with equal \<open>created_at\<close> open; here the one stored first is
  taken.\<close>

definition created_after :: "payout \<Rightarrow> payout \<Rightarrow> bool" where
  "created_after q p =
     (case p_created_at q of
        None \<Rightarrow> False
      | Some a \<Rightarrow> (case p_created_at p of None \<Rightarrow> True | Some b \<Rightarrow> b < a))"

definition latest_payout :: "db \<Rightarrow> string \<Rightarrow> payout option" where
  "latest_payout s eid =
     (case filter (\<lambda>p. p_escrow_id p = eid) (payouts s) of
        [] \<Rightarrow> None
      | p # ps \<Rightarrow> Some (foldl (\<lambda>best q. if created_after q best then q else best) p ps))"

definition admin_escrows_complete ::
  "nat \<Rightarrow> string \<Rightarrow> string \<Rightarrow> auth_user \<Rightarrow> string \<Rightarrow> db \<Rightarrow> response \<times> db" where
  "admin_escrows_complete now payoutAuditId auditId u escrowId s =
     (case requireAdmin u of
        Some r \<Rightarrow> (r, s)
      | None \<Rightarrow>
          (case select_escrow s escrowId of
             None \<Rightarrow> (Response 404 ''Escrow not found'', s)
           | Some escrow \<Rightarrow>
               if e_status escrow = ''completed''
               then (Response 200 ''Escrow already completed'', s)
               else if e_status escrow \<noteq> ''released''
               then (Response 400 ''Escrow must be 'released' before completion'', s)
               else
                 let s1 = update_escrow escrowId
                            (\<lambda>e. e\<lparr>e_status := ''completed'', e_updated_at := now\<rparr>) s;
                     s2 = (case latest_payout s1 escrowId of
                             None \<Rightarrow> s1
                           | Some payout \<Rightarrow>
                               if p_status payout = ''pending''
                               then audit now payoutAuditId (au_id u) ''payout_status'' ''payouts''
                                      (p_id payout)
                                      (JObject [(''from'', JStr ''pending''), (''to'', JStr ''sent'')])
                                      (update_payout (p_id payout)
                                         (\<lambda>p. p\<lparr>p_status := ''sent'', p_sent_at := Some now\<rparr>) s1)
                               else s1);
                     s3 = audit now auditId (au_id u) ''complete'' ''escrow_transactions'' escrowId
                            (JObject [(''status'', JStr ''completed'')]) s2
                 in (Response 200 ''Escrow marked as completed'', s3)))"

subsection \<open>\<open>POST /api/admin/escrows/:id/refund\<close>\<close>

definition admin_escrows_refund ::
  "nat \<Rightarrow> string \<Rightarrow> auth_user \<Rightarrow> string \<Rightarrow> db \<Rightarrow> response \<times> db" where
  "admin_escrows_refund now auditId u escrowId s =
     (case requireAdmin u of
        Some r \<Rightarrow> (r, s)
      | None \<Rightarrow>
          (case select_escrow s escrowId of
             None \<Rightarrow> (Response 404 ''Escrow not found'', s)
           | Some escrow \<Rightarrow>
               if e_status escrow \<noteq> ''dispute''
               then (Response 400 ''Escrow must be in 'dispute' to refund'', s)
               else
                 let s1 = update_escrow escrowId
                            (\<lambda>e. e\<lparr>e_status := ''cancelled'', e_updated_at := now\<rparr>) s;
                     s2 = audit now auditId (au_id u) ''refund'' ''escrow_transactions'' escrowId
                            (JObject [(''status'', JStr ''cancelled'')]) s1
                 in (Response 200 ''Escrow refunded and cancelled'', s2)))"

section \<open>The payment webhook, \<open>POST /webhooks/payments\<close>\<close>

text \<open>The fields of the payload that the handler reads. \<open>payload_json\<close> is what
  \<open>JSON.stringify(rawPayload)\<close> stores of them.\<close>

record webhook_payload =
  wp_event :: "string option"
  wp_pg_ref :: "string option"
  wp_method :: "string option"

definition opt_field :: "string \<Rightarrow> string option \<Rightarrow> (string \<times> json) list" where
  "opt_field k x = (case x of None \<Rightarrow> [] | Some v \<Rightarrow> [(k, JStr v)])"

definition payload_json :: "webhook_payload \<Rightarrow> json" where
  "payload_json p =
     JObject (opt_field ''event'' (wp_event p) @ opt_field ''pg_ref'' (wp_pg_ref p)
              @ opt_field ''method'' (wp_method p))"

text \<open>\<open>JSON_EXTRACT(payload, '$.key')\<close>\<close>

definition json_extract :: "json \<Rightarrow> string \<Rightarrow> json option" where
  "json_extract j k = (case j of JObject kvs \<Rightarrow> map_of kvs k | _ \<Rightarrow> None)"

text \<open>\<open>SELECT id FROM webhook_events WHERE JSON_EXTRACT(payload, '$.pg_ref') = ? AND
  event_type = ?\<close>; a comparison with \<open>NULL\<close> selects no row.\<close>

definition select_webhook_events :: "db \<Rightarrow> string option \<Rightarrow> string \<Rightarrow> webhook_event list" where
  "select_webhook_events s pgRef eventType =
     (case pgRef of
        None \<Rightarrow> []
      | Some r \<Rightarrow>
          filter (\<lambda>w. json_extract (w_payload w) ''pg_ref'' = Some (JStr r)
                       \<and> w_event_type w = eventType) (webhook_events s))"

definition webhooks_payments ::
  "nat \<Rightarrow> string \<Rightarrow> string option \<Rightarrow> webhook_payload option \<Rightarrow> db \<Rightarrow> response \<times> db" where
  "webhooks_payments now eventId x_signature body s =
     (let signature = str_or_null x_signature in
      if signature = None
      then (Response 400 ''Missing signature'', s)
      else
        (case body of
           None \<Rightarrow> (Response 500 ''Internal server error'', s)
         | Some rawPayload \<Rightarrow>
             let eventType = str_or (wp_event rawPayload) ''unknown'';
                 pgRef = str_or_null (wp_pg_ref rawPayload)
             in
             if select_webhook_events s pgRef eventType \<noteq> []
             then (Response 200 ''Event already processed'', s)
             else
               let s1 = insert_webhook_event
                          \<lparr>w_id = eventId, w_source = ''payment_gateway'',
                           w_event_type = eventType, w_payload = payload_json rawPayload,
                           w_processed = False, w_created_at = now\<rparr> s;
                   s2 = (if eventType = ''payment_succeeded'' \<and> pgRef \<noteq> None
                         then
                           (case filter (\<lambda>p. Some (pi_pg_reference p) = pgRef)
                                   (payment_intents s1) of
                              [] \<Rightarrow> s1
                            | intent # _ \<Rightarrow>
                                update_webhook_event eventId (\<lambda>w. w\<lparr>w_processed := True\<rparr>)
                                  (update_escrow (pi_escrow_id intent)
                                     (\<lambda>e. e\<lparr>e_status := ''funded'', e_updated_at := now\<rparr>)
                                     (update_payment_intent (pi_id intent)
                                        (\<lambda>p. p\<lparr>pi_status := ''paid'', pi_paid_at := Some now,
                                                pi_raw_payload := payload_json rawPayload,
                                                pi_method := str_or_null (wp_method rawPayload)\<rparr>)
                                        s1)))
                         else s1)
               in (Response 200 ''Webhook processed'', s2)))"

section \<open>The endpoints that test the status before they change it\<close>

text \<open>A request to one of the nine handlers that read the status of the escrow, compare it
  with one state and only then update it, with the arguments of the handler.\<close>

datatype request =
    Fund nat string string auth_user string "fund_body option"
  | Ship nat string string auth_user string "upload list" "ship_body option"
  | Confirm nat string auth_user string
  | Cancel nat string auth_user string
  | Release nat string string auth_user string
  | ReleaseBuyer nat string auth_user string
  | AdminRelease nat string string auth_user string
  | AdminComplete nat string string auth_user string
  | AdminRefund nat string auth_user string

fun handle :: "request \<Rightarrow> db \<Rightarrow> response \<times> db" where
  "handle (Fund now paymentId auditId u escrowId body) s =
     escrow_fund now paymentId auditId u escrowId body s"
| "handle (Ship now auditId baseUrl u escrowId files body) s =
     escrow_ship now auditId baseUrl u escrowId files body s"
| "handle (Confirm now auditId u escrowId) s = escrow_confirm now auditId u escrowId s"
| "handle (Cancel now auditId u escrowId) s = escrow_cancel now auditId u escrowId s"
| "handle (Release now payoutId auditId u escrowId) s =
     escrow_release now payoutId auditId u escrowId s"
| "handle (ReleaseBuyer now payoutId u escrowId) s =
     escrow_release_buyer now payoutId u escrowId s"
| "handle (AdminRelease now payoutId auditId u escrowId) s =
     admin_escrows_release now payoutId auditId u escrowId s"
| "handle (AdminComplete now payoutAuditId auditId u escrowId) s =
     admin_escrows_complete now payoutAuditId auditId u escrowId s"
| "handle (AdminRefund now auditId u escrowId) s = admin_escrows_refund now auditId u escrowId s"

text \<open>The escrow that a request addresses, \<open>req.params.id\<close>.\<close>

fun target :: "request \<Rightarrow> string" where
  "target (Fund now paymentId auditId u escrowId body) = escrowId"
| "target (Ship now auditId baseUrl u escrowId files body) = escrowId"
| "target (Confirm now auditId u escrowId) = escrowId"
| "target (Cancel now auditId u escrowId) = escrowId"
| "target (Release now payoutId auditId u escrowId) = escrowId"
| "target (ReleaseBuyer now payoutId u escrowId) = escrowId"
| "target (AdminRelease now payoutId auditId u escrowId) = escrowId"
| "target (AdminComplete now payoutAuditId auditId u escrowId) = escrowId"
| "target (AdminRefund now auditId u escrowId) = escrowId"

text \<open>The transition table of the specification for these endpoints: the state that the
  escrow must be in, and the state that the endpoint moves it to.\<close>

fun edge_from :: "request \<Rightarrow> string" where
  "edge_from (Fund now paymentId auditId u escrowId body) = ''created''"
| "edge_from (Ship now auditId baseUrl u escrowId files body) = ''funded''"
| "edge_from (Confirm now auditId u escrowId) = ''shipped''"
| "edge_from (Cancel now auditId u escrowId) = ''created''"
| "edge_from (Release now payoutId auditId u escrowId) = ''confirmed''"
| "edge_from (ReleaseBuyer now payoutId u escrowId) = ''confirmed''"
| "edge_from (AdminRelease now payoutId auditId u escrowId) = ''confirmed''"
| "edge_from (AdminComplete now payoutAuditId auditId u escrowId) = ''released''"
| "edge_from (AdminRefund now auditId u escrowId) = ''dispute''"

fun edge_to :: "request \<Rightarrow> string" where
  "edge_to (Fund now paymentId auditId u escrowId body) = ''funded''"
| "edge_to (Ship now auditId baseUrl u escrowId files body) = ''shipped''"
| "edge_to (Confirm now auditId u escrowId) = ''confirmed''"
| "edge_to (Cancel now auditId u escrowId) = ''cancelled''"
| "edge_to (Release now payoutId auditId u escrowId) = ''released''"
| "edge_to (ReleaseBuyer now payoutId u escrowId) = ''released''"
| "edge_to (AdminRelease now payoutId auditId u escrowId) = ''released''"
| "edge_to (AdminComplete now payoutAuditId auditId u escrowId) = ''completed''"
| "edge_to (AdminRefund now auditId u escrowId) = ''cancelled''"

text \<open>The graph of the specification: the main line, cancellation of a created escrow and
  the refund of a disputed one.\<close>

definition lifecycle_edge :: "string \<Rightarrow> string \<Rightarrow> bool" where
  "lifecycle_edge a b =
     ((a, b) \<in> set [(''created'', ''funded''), (''funded'', ''shipped''),
                    (''shipped'', ''confirmed''), (''confirmed'', ''released''),
                    (''released'', ''completed''), (''created'', ''cancelled''),
                    (''dispute'', ''cancelled'')])"

text \<open>The caller passes the checks of role, party and KYC status that the handler makes
  before it looks at the status of the escrow.\<close>

fun admitted :: "request \<Rightarrow> db \<Rightarrow> escrow \<Rightarrow> bool" where
  "admitted (Fund now paymentId auditId u escrowId body) s e = True"
| "admitted (Ship now auditId baseUrl u escrowId files body) s e =
     (au_role u = ''seller'' \<and> kyc_verified s (au_id u) \<and> e_seller_id e = au_id u)"
| "admitted (Confirm now auditId u escrowId) s e =
     (au_role u = ''buyer'' \<and> e_buyer_id e = au_id u)"
| "admitted (Cancel now auditId u escrowId) s e =
     (au_id u = e_buyer_id e \<or> au_id u = e_seller_id e)"
| "admitted (Release now payoutId auditId u escrowId) s e = (au_role u = ''admin'')"
| "admitted (ReleaseBuyer now payoutId u escrowId) s e =
     (kyc_verified s (au_id u) \<and> au_id u = e_buyer_id e)"
| "admitted (AdminRelease now payoutId auditId u escrowId) s e = (au_role u = ''admin'')"
| "admitted (AdminComplete now payoutAuditId auditId u escrowId) s e = (au_role u = ''admin'')"
| "admitted (AdminRefund now auditId u escrowId) s e = (au_role u = ''admin'')"

text \<open>The two admin actions that answer 200 on an escrow that is already in their target
  state.\<close>

fun already_done :: "request \<Rightarrow> escrow \<Rightarrow> bool" where
  "already_done (AdminRelease now payoutId auditId u escrowId) e = (e_status e = ''released'')"
| "already_done (AdminComplete now payoutAuditId auditId u escrowId) e =
     (e_status e = ''completed'')"
| "already_done rq e = False"

text \<open>One row of the escrow table before and after a request on escrow \<open>k\<close> that moves from
  state \<open>a\<close> to state \<open>b\<close>: the row keeps its id, and it is untouched unless it is the row of
  \<open>k\<close>, was in state \<open>a\<close> and is now in state \<open>b\<close>.\<close>

definition row_step :: "string \<Rightarrow> string \<Rightarrow> string \<Rightarrow> escrow \<Rightarrow> escrow \<Rightarrow> bool" where
  "row_step k a b x y =
     (e_id y = e_id x \<and> (y = x \<or> (e_id x = k \<and> e_status x = a \<and> e_status y = b)))"

section \<open>A small store for concrete runs\<close>

text \<open>Alice buys from Bob; Mallory is another seller and Root an admin. The store holds one
  escrow between Alice and Bob, in the given status, and Bob's KYC status is as given.\<close>

definition alice :: auth_user where
  "alice = \<lparr>au_id = ''alice'', au_email = ''alice@example.org'', au_role = ''buyer''\<rparr>"

definition bob :: auth_user where
  "bob = \<lparr>au_id = ''bob'', au_email = ''bob@example.org'', au_role = ''seller''\<rparr>"

definition mallory :: auth_user where
  "mallory = \<lparr>au_id = ''mallory'', au_email = ''mallory@example.org'', au_role = ''seller''\<rparr>"

definition root :: auth_user where
  "root = \<lparr>au_id = ''root'', au_email = ''root@example.org'', au_role = ''admin''\<rparr>"

definition escrow1 :: "string \<Rightarrow> escrow" where
  "escrow1 st =
     \<lparr>e_id = ''e1'', e_buyer_id = ''alice'', e_seller_id = ''bob'', e_amount = 100,
      e_currency = ''IDR'', e_status = st, e_created_at = 1, e_updated_at = 1,
      e_seller_proof_url = None, e_seller_receipt_number = None, e_buyer_proof_url = None\<rparr>"

definition store1 :: "string \<Rightarrow> string \<Rightarrow> db" where
  "store1 st kyc =
     \<lparr>users = [\<lparr>u_id = ''alice'', u_email = ''alice@example.org'', u_role = ''buyer'',
                u_kyc_status = ''verified''\<rparr>,
               \<lparr>u_id = ''bob'', u_email = ''bob@example.org'', u_role = ''seller'',
                u_kyc_status = kyc\<rparr>,
               \<lparr>u_id = ''mallory'', u_email = ''mallory@example.org'', u_role = ''seller'',
                u_kyc_status = ''pending''\<rparr>],
      escrow_transactions = [escrow1 st],
      payment_intents = [], payouts = [], disputes = [], webhook_events = [],
      audit_logs = []\<rparr>"

text \<open>A dispute on that escrow, in the given status.\<close>

definition dispute1 :: "string \<Rightarrow> dispute" where
  "dispute1 st =
     \<lparr>d_id = ''d1'', d_escrow_id = ''e1'', d_opened_by = ''alice'', d_reason = ''not received'',
      d_status = st, d_created_at = 2, d_updated_at = None, d_resolved_at = None\<rparr>"

text \<open>The same store with a dispute on the escrow.\<close>

definition store2 :: "string \<Rightarrow> string \<Rightarrow> string \<Rightarrow> db" where
  "store2 st kyc dst = (store1 st kyc)\<lparr>disputes := [dispute1 dst]\<rparr>"

text \<open>The store after Alice has funded the escrow with reference \<open>ref1\<close> (the payment intent
  that the fund handler inserts), the escrow being in the given status; the gateway's
  event for that payment; and the store in which that event is already recorded.\<close>

definition intent1 :: payment_intent where
  "intent1 =
     \<lparr>pi_id = ''pi1'', pi_escrow_id = ''e1'', pi_method = Some ''qr'',
      pi_pg_reference = ''ref1'', pi_qr_code_url = None, pi_status = ''paid'',
      pi_paid_at = Some 2,
      pi_raw_payload = JObject [(''pg_ref'', JStr ''ref1''), (''method'', JStr ''qr'')]\<rparr>"

definition store3 :: "string \<Rightarrow> db" where
  "store3 st = (store1 st ''verified'')\<lparr>payment_intents := [intent1]\<rparr>"

definition payload1 :: webhook_payload where
  "payload1 =
     \<lparr>wp_event = Some ''payment_succeeded'', wp_pg_ref = Some ''ref1'', wp_method = Some ''qr''\<rparr>"



text \<open>The body of a ship request with a tracking number.\<close>

definition ship1 :: ship_body where
  "ship1 = \<lparr>sb_tracking_number = Some ''TRK1'', sb_tracking_no = None, sb_trackingNo = None,
             sb_shipping_receipt = None, sb_shipping_receipt_number = None, sb_receipt = None\<rparr>"

section \<open>Properties\<close>

subsection \<open>Reading a row after a statement\<close>

lemma find_map_key:
  assumes "\<And>x. key (f x) = key x"
  shows "find (\<lambda>x. key x = k) (map (\<lambda>x. if key x = k' then f x else x) xs)
         = map_option (\<lambda>x. if key x = k' then f x else x) (find (\<lambda>x. key x = k) xs)"
  using assms by (induction xs) auto

lemma select_escrow_update:
  assumes "\<And>x. e_id (f x) = e_id x"
  shows "select_escrow (update_escrow k' f s) k
         = map_option (\<lambda>x. if e_id x = k' then f x else x) (select_escrow s k)"
  using find_map_key [of e_id f k k' "escrow_transactions s", OF assms]
  by (simp add: select_escrow_def update_escrow_def)

lemma select_dispute_update:
  assumes "\<And>x. d_id (f x) = d_id x"
  shows "select_dispute (update_dispute k' f s) k
         = map_option (\<lambda>x. if d_id x = k' then f x else x) (select_dispute s k)"
  using find_map_key [of d_id f k k' "disputes s", OF assms]
  by (simp add: select_dispute_def update_dispute_def)

lemma select_dispute_frame [simp]:
  "select_dispute (update_escrow k f s) = select_dispute s"
  "select_dispute (insert_payout p s) = select_dispute s"
  "select_dispute (audit now aid actor act ent eid md s) = select_dispute s"
  by (simp_all add: select_dispute_def update_escrow_def insert_payout_def audit_def fun_eq_iff)

lemma select_escrow_frame [simp]:
  "select_escrow (update_dispute k g s) = select_escrow s"
  "select_escrow (insert_payout p s) = select_escrow s"
  "select_escrow (audit now aid actor act ent eid md s) = select_escrow s"
  by (simp_all add: select_escrow_def update_dispute_def insert_payout_def audit_def fun_eq_iff)

lemma resolve_finish_tables:
  "fst (resolve_finish now auditId u did b s) = Response 200 ''Dispute resolved successfully''"
  "escrow_transactions (snd (resolve_finish now auditId u did b s)) = escrow_transactions s"
  "payouts (snd (resolve_finish now auditId u did b s)) = payouts s"
  "select_dispute (snd (resolve_finish now auditId u did b s)) k
     = map_option (\<lambda>x. if d_id x = did then x\<lparr>d_status := ''resolved'', d_resolved_at := Some now\<rparr> else x)
         (select_dispute s k)"
  by (simp_all add: resolve_finish_def Let_def update_dispute_def audit_def select_dispute_update
        select_dispute_def find_map_key)

lemma select_escrow_key: "select_escrow s k = Some e \<Longrightarrow> e_id e = k"
  by (auto simp: select_escrow_def dest: find_Some_iff[THEN iffD1])

lemma select_dispute_key: "select_dispute s k = Some d \<Longrightarrow> d_id d = k"
  by (auto simp: select_dispute_def dest: find_Some_iff[THEN iffD1])

lemma select_dispute_escrow_Some:
  "select_dispute_escrow s k = Some (d, e)
     \<longleftrightarrow> select_dispute s k = Some d \<and> select_escrow s (d_escrow_id d) = Some e"
  by (auto simp: select_dispute_escrow_def split: option.splits)

lemma select_escrow_frame2 [simp]:
  "select_escrow (update_payout k h s) = select_escrow s"
  by (simp add: select_escrow_def update_payout_def fun_eq_iff)

lemma select_escrow_updated:
  assumes "select_escrow s k = Some e" and "\<And>x. e_id (f x) = e_id x"
  shows "select_escrow (update_escrow k f s) k = Some (f e)"
  using assms(1) select_escrow_key [OF assms(1)]
  by (simp add: select_escrow_update [OF assms(2)])

lemma select_dispute_updated:
  assumes "select_dispute s k = Some d" and "\<And>x. d_id (g x) = d_id x"
  shows "select_dispute (update_dispute k g s) k = Some (g d)"
  using assms(1) select_dispute_key [OF assms(1)]
  by (simp add: select_dispute_update [OF assms(2)])

lemma select_dispute_escrow_updated:
  assumes "select_dispute_escrow s k = Some (d, e)"
    and "\<And>x. d_id (g x) = d_id x" and "\<And>x. d_escrow_id (g x) = d_escrow_id x"
    and "\<And>x. e_id (f x) = e_id x"
  shows "select_dispute_escrow
           (audit now aid actor act ent eid md
              (update_dispute k g (update_escrow (d_escrow_id d) f s))) k
         = Some (g d, f e)"
proof -
  from assms(1) have d: "select_dispute s k = Some d"
    and e: "select_escrow s (d_escrow_id d) = Some e"
    by (simp_all add: select_dispute_escrow_Some)
  have "select_dispute (update_dispute k g (update_escrow (d_escrow_id d) f s)) k = Some (g d)"
    using select_dispute_updated [of "update_escrow (d_escrow_id d) f s" k d g] d assms(2)
    by simp
  moreover have "select_escrow (update_dispute k g (update_escrow (d_escrow_id d) f s))
                   (d_escrow_id d) = Some (f e)"
    using select_escrow_updated [OF e, of f] assms(4) by simp
  ultimately show ?thesis
    by (simp add: select_dispute_escrow_def assms(3))
qed

subsection \<open>The claims\<close>

text \<open>The nine endpoints that test the status: the rows of the escrow table after a
  request, and the answer to a request on an escrow in another state. The id is the
  primary key of the escrow table.\<close>

lemma row_step_same: "list_all2 (row_step k a b) xs xs"
  by (simp add: list_all2_same row_step_def)

lemma select_escrow_unique:
  assumes "distinct (map e_id (escrow_transactions s))" and "select_escrow s k = Some e"
    and "x \<in> set (escrow_transactions s)" and "e_id x = k"
  shows "x = e"
proof -
  have "e \<in> set (escrow_transactions s)" "e_id e = k"
    using assms(2) by (auto simp: select_escrow_def find_Some_iff)
  moreover have "inj_on e_id (set (escrow_transactions s))"
    using assms(1) by (simp add: distinct_map)
  ultimately show ?thesis
    using assms(3,4) by (auto dest: inj_onD)
qed

lemma row_step_update:
  assumes "distinct (map e_id (escrow_transactions s))" and "select_escrow s k = Some e"
    and "e_status e = a" and "\<And>x. e_id (f x) = e_id x" and "\<And>x. e_status (f x) = b"
  shows "list_all2 (row_step k a b) (escrow_transactions s)
           (map (\<lambda>x. if e_id x = k then f x else x) (escrow_transactions s))"
  using select_escrow_unique [OF assms(1,2)] assms(3,4,5)
  by (auto simp: list.rel_map list_all2_same row_step_def)

lemma row_step_cases:
  assumes "distinct (map e_id (escrow_transactions s))"
    and "s' = s \<or> (\<exists>e. select_escrow s k = Some e \<and> e_status e = a
                    \<and> escrow_transactions s' = map (\<lambda>x. if e_id x = k then f x else x)
                                                  (escrow_transactions s))"
    and "\<And>x. e_id (f x) = e_id x" and "\<And>x. e_status (f x) = b"
  shows "list_all2 (row_step k a b) (escrow_transactions s) (escrow_transactions s')"
  using assms(2)
proof
  assume "s' = s"
  then show ?thesis by (simp add: row_step_same)
next
  assume "\<exists>e. select_escrow s k = Some e \<and> e_status e = a
            \<and> escrow_transactions s' = map (\<lambda>x. if e_id x = k then f x else x)
                                          (escrow_transactions s)"
  then obtain e where "select_escrow s k = Some e" "e_status e = a"
    and eq: "escrow_transactions s' = map (\<lambda>x. if e_id x = k then f x else x)
                                          (escrow_transactions s)"
    by blast
  then show ?thesis
    using row_step_update [OF assms(1), of k e a f b] assms(3,4) by simp
qed

lemma escrow_confirm_effect:
  "snd (escrow_confirm now auditId u k s) = s
   \<or> (\<exists>e. select_escrow s k = Some e \<and> e_status e = ''shipped''
         \<and> escrow_transactions (snd (escrow_confirm now auditId u k s))
             = map (\<lambda>x. if e_id x = k then x\<lparr>e_status := ''confirmed'', e_updated_at := now\<rparr> else x)
                 (escrow_transactions s))"
  by (simp add: escrow_confirm_def Let_def update_escrow_def audit_def split: option.splits)

lemma escrow_cancel_effect:
  "snd (escrow_cancel now auditId u k s) = s
   \<or> (\<exists>e. select_escrow s k = Some e \<and> e_status e = ''created''
         \<and> escrow_transactions (snd (escrow_cancel now auditId u k s))
             = map (\<lambda>x. if e_id x = k then x\<lparr>e_status := ''cancelled'', e_updated_at := now\<rparr> else x)
                 (escrow_transactions s))"
  by (simp add: escrow_cancel_def Let_def update_escrow_def audit_def split: option.splits)

lemma escrow_fund_effect:
  "snd (escrow_fund now paymentId auditId u k body s) = s
   \<or> (\<exists>e. select_escrow s k = Some e \<and> e_status e = ''created''
         \<and> escrow_transactions (snd (escrow_fund now paymentId auditId u k body s))
             = map (\<lambda>x. if e_id x = k then x\<lparr>e_status := ''funded'', e_updated_at := now\<rparr> else x)
                 (escrow_transactions s))"
  by (simp add: escrow_fund_def Let_def update_escrow_def audit_def insert_payment_intent_def
      split: option.splits)

lemma escrow_release_effect:
  "snd (escrow_release now payoutId auditId u k s) = s
   \<or> (\<exists>e. select_escrow s k = Some e \<and> e_status e = ''confirmed''
         \<and> escrow_transactions (snd (escrow_release now payoutId auditId u k s))
             = map (\<lambda>x. if e_id x = k then x\<lparr>e_status := ''released'', e_updated_at := now\<rparr> else x)
                 (escrow_transactions s))"
  by (simp add: escrow_release_def Let_def update_escrow_def audit_def insert_payout_def
      split: option.splits)

lemma escrow_release_buyer_effect:
  "snd (escrow_release_buyer now payoutId u k s) = s
   \<or> (\<exists>e. select_escrow s k = Some e \<and> e_status e = ''confirmed''
         \<and> escrow_transactions (snd (escrow_release_buyer now payoutId u k s))
             = map (\<lambda>x. if e_id x = k then x\<lparr>e_status := ''released'', e_updated_at := now\<rparr> else x)
                 (escrow_transactions s))"
  by (simp add: escrow_release_buyer_def Let_def update_escrow_def insert_payout_def
      split: option.splits)

lemma admin_escrows_release_effect:
  "snd (admin_escrows_release now payoutId auditId u k s) = s
   \<or> (\<exists>e. select_escrow s k = Some e \<and> e_status e = ''confirmed''
         \<and> escrow_transactions (snd (admin_escrows_release now payoutId auditId u k s))
             = map (\<lambda>x. if e_id x = k then x\<lparr>e_status := ''released'', e_updated_at := now\<rparr> else x)
                 (escrow_transactions s))"
  by (simp add: admin_escrows_release_def Let_def update_escrow_def audit_def insert_payout_def
      split: option.splits)

lemma admin_escrows_complete_effect:
  "snd (admin_escrows_complete now payoutAuditId auditId u k s) = s
   \<or> (\<exists>e. select_escrow s k = Some e \<and> e_status e = ''released''
         \<and> escrow_transactions (snd (admin_escrows_complete now payoutAuditId auditId u k s))
             = map (\<lambda>x. if e_id x = k then x\<lparr>e_status := ''completed'', e_updated_at := now\<rparr> else x)
                 (escrow_transactions s))"
  by (simp add: admin_escrows_complete_def Let_def update_escrow_def audit_def update_payout_def
      split: option.splits)

lemma admin_escrows_refund_effect:
  "snd (admin_escrows_refund now auditId u k s) = s
   \<or> (\<exists>e. select_escrow s k = Some e \<and> e_status e = ''dispute''
         \<and> escrow_transactions (snd (admin_escrows_refund now auditId u k s))
             = map (\<lambda>x. if e_id x = k then x\<lparr>e_status := ''cancelled'', e_updated_at := now\<rparr> else x)
                 (escrow_transactions s))"
  by (simp add: admin_escrows_refund_def Let_def update_escrow_def audit_def
      split: option.splits)


lemma escrow_ship_effect:
  "snd (escrow_ship now auditId baseUrl u k files body s) = s
   \<or> (\<exists>e. select_escrow s k = Some e \<and> e_status e = ''funded''
         \<and> escrow_transactions (snd (escrow_ship now auditId baseUrl u k files body s))
             = map (\<lambda>x. if e_id x = k
                         then x\<lparr>e_status := ''shipped'',
                                e_seller_proof_url :=
                                  coalesce (map_option
                                              (\<lambda>f. baseUrl @ ''/uploads/shipping/'' @ f_basename f)
                                              (case files of [] \<Rightarrow> None | f # _ \<Rightarrow> Some f))
                                    (e_seller_proof_url x),
                                e_seller_receipt_number :=
                                  coalesce (str_or_null (Some (str_val (nullish
                                     (case body of
                                        None \<Rightarrow> []
                                      | Some b \<Rightarrow>
                                          [sb_tracking_number b, sb_tracking_no b,
                                           sb_trackingNo b, sb_shipping_receipt b,
                                           sb_shipping_receipt_number b, sb_receipt b])))))
                                    (e_seller_receipt_number x),
                                e_updated_at := now\<rparr>
                         else x)
                 (escrow_transactions s))"
  by (simp add: escrow_ship_def Let_def update_escrow_def audit_def split: option.splits)

lemma handle_rows:
  assumes "distinct (map e_id (escrow_transactions s))"
  shows "list_all2 (row_step (target rq) (edge_from rq) (edge_to rq))
           (escrow_transactions s) (escrow_transactions (snd (handle rq s)))"
proof (cases rq)
  case (Fund now paymentId auditId u k body)
  show ?thesis
    unfolding Fund handle.simps target.simps edge_from.simps edge_to.simps
    by (rule row_step_cases [OF assms escrow_fund_effect]) simp_all
next
  case (Ship now auditId baseUrl u k files body)
  show ?thesis
    unfolding Ship handle.simps target.simps edge_from.simps edge_to.simps
    by (rule row_step_cases [OF assms escrow_ship_effect]) simp_all
next
  case (Confirm now auditId u k)
  show ?thesis
    unfolding Confirm handle.simps target.simps edge_from.simps edge_to.simps
    by (rule row_step_cases [OF assms escrow_confirm_effect]) simp_all
next
  case (Cancel now auditId u k)
  show ?thesis
    unfolding Cancel handle.simps target.simps edge_from.simps edge_to.simps
    by (rule row_step_cases [OF assms escrow_cancel_effect]) simp_all
next
  case (Release now payoutId auditId u k)
  show ?thesis
    unfolding Release handle.simps target.simps edge_from.simps edge_to.simps
    by (rule row_step_cases [OF assms escrow_release_effect]) simp_all
next
  case (ReleaseBuyer now payoutId u k)
  show ?thesis
    unfolding ReleaseBuyer handle.simps target.simps edge_from.simps edge_to.simps
    by (rule row_step_cases [OF assms escrow_release_buyer_effect]) simp_all
next
  case (AdminRelease now payoutId auditId u k)
  show ?thesis
    unfolding AdminRelease handle.simps target.simps edge_from.simps edge_to.simps
    by (rule row_step_cases [OF assms admin_escrows_release_effect]) simp_all
next
  case (AdminComplete now payoutAuditId auditId u k)
  show ?thesis
    unfolding AdminComplete handle.simps target.simps edge_from.simps edge_to.simps
    by (rule row_step_cases [OF assms admin_escrows_complete_effect]) simp_all
next
  case (AdminRefund now auditId u k)
  show ?thesis
    unfolding AdminRefund handle.simps target.simps edge_from.simps edge_to.simps
    by (rule row_step_cases [OF assms admin_escrows_refund_effect]) simp_all
qed

lemma handle_edge: "lifecycle_edge (edge_from rq) (edge_to rq)"
  by (cases rq) (simp_all add: lifecycle_edge_def)

lemma handle_wrong_state:
  assumes "select_escrow s (target rq) = Some e" and "e_status e \<noteq> edge_from rq"
  shows "snd (handle rq s) = s"
    and "status_code (fst (handle rq s)) \<in> {400, 403, 404}
         \<or> already_done rq e \<and> status_code (fst (handle rq s)) = 200"
    and "admitted rq s e \<Longrightarrow> \<not> already_done rq e \<Longrightarrow> status_code (fst (handle rq s)) = 400"
    and "admitted rq s e \<Longrightarrow> already_done rq e \<Longrightarrow> status_code (fst (handle rq s)) = 200"
proof -
  show "snd (handle rq s) = s"
    using assms
    by (cases rq)
       (simp_all add: escrow_fund_def escrow_ship_def escrow_confirm_def escrow_cancel_def
          escrow_release_def escrow_release_buyer_def admin_escrows_release_def
          admin_escrows_complete_def admin_escrows_refund_def Let_def split: option.splits)
  show "status_code (fst (handle rq s)) \<in> {400, 403, 404}
         \<or> already_done rq e \<and> status_code (fst (handle rq s)) = 200"
    using assms
    by (cases rq)
       (simp_all add: escrow_fund_def escrow_ship_def escrow_confirm_def escrow_cancel_def
          escrow_release_def escrow_release_buyer_def admin_escrows_release_def
          admin_escrows_complete_def admin_escrows_refund_def requireAdmin_def
          requireKYCVerified_def Let_def split: option.splits)
  show "admitted rq s e \<Longrightarrow> \<not> already_done rq e \<Longrightarrow> status_code (fst (handle rq s)) = 400"
    using assms
    by (cases rq)
       (auto simp: escrow_fund_def escrow_ship_def escrow_confirm_def escrow_cancel_def
          escrow_release_def escrow_release_buyer_def admin_escrows_release_def
          admin_escrows_complete_def admin_escrows_refund_def requireAdmin_def
          requireKYCVerified_def kyc_verified_def Let_def split: option.splits)
  show "admitted rq s e \<Longrightarrow> already_done rq e \<Longrightarrow> status_code (fst (handle rq s)) = 200"
    using assms
    by (cases rq)
       (simp_all add: admin_escrows_release_def admin_escrows_complete_def requireAdmin_def)
qed

text \<open>
  Claim C1, as amended. For the endpoints that test the escrow's status before they update
  it (fund, ship, confirm, cancel, the two variants of escrow release, admin release, admin
  complete and admin refund), in a store where escrow ids are unique: a request changes no
  escrow row except that of the escrow it addresses, and changes that one only from the
  from-state of the endpoint to its to-state, which is an edge of the graph
  (created\<rightarrow>funded\<rightarrow>shipped\<rightarrow>confirmed\<rightarrow>released\<rightarrow>completed, created\<rightarrow>cancelled,
  dispute\<rightarrow>cancelled); no escrow row is added or removed. A request on an existing escrow that
  is not in the from-state leaves the whole store unchanged and is answered 400, 403 or 404,
  or 200 by admin release or admin complete on an escrow already in their to-state; for a
  caller who passes the handler's checks of role, party and KYC status the answer is 400,
  but for that 200.
\<close>

theorem guarded_endpoints_follow_graph:
  assumes "distinct (map e_id (escrow_transactions s))"
  shows "list_all2 (row_step (target rq) (edge_from rq) (edge_to rq))
           (escrow_transactions s) (escrow_transactions (snd (handle rq s)))
       \<and> lifecycle_edge (edge_from rq) (edge_to rq)
       \<and> (select_escrow s (target rq) = Some e \<and> e_status e \<noteq> edge_from rq \<longrightarrow>
            snd (handle rq s) = s
          \<and> (status_code (fst (handle rq s)) \<in> {400, 403, 404}
              \<or> already_done rq e \<and> status_code (fst (handle rq s)) = 200)
          \<and> (admitted rq s e \<longrightarrow>
                status_code (fst (handle rq s)) = (if already_done rq e then 200 else 400)))"
  using handle_rows [OF assms, of rq] handle_edge [of rq] handle_wrong_state [of s rq e]
  by simp

theorem guarded_endpoints_follow_graph_witness:
  "escrow_transactions (snd (handle (Confirm 6 ''a1'' alice ''e1'') (store1 ''shipped'' ''verified'')))
     = [(escrow1 ''shipped'')\<lparr>e_status := ''confirmed'', e_updated_at := 6\<rparr>]
   \<and> list_all2 (row_step ''e1'' ''shipped'' ''confirmed'')
        (escrow_transactions (store1 ''shipped'' ''verified''))
        (escrow_transactions
           (snd (handle (Confirm 6 ''a1'' alice ''e1'') (store1 ''shipped'' ''verified''))))
   \<and> lifecycle_edge ''shipped'' ''confirmed''
   \<and> snd (handle (Confirm 6 ''a1'' alice ''e1'') (store1 ''created'' ''verified''))
       = store1 ''created'' ''verified''
   \<and> status_code (fst (handle (Confirm 6 ''a1'' alice ''e1'') (store1 ''created'' ''verified'')))
       = 400"
proof -
  have pk: "distinct (map e_id (escrow_transactions (store1 st ''verified'')))" for st
    by (simp add: store1_def)
  have e: "select_escrow (store1 st ''verified'') (target (Confirm 6 ''a1'' alice ''e1''))
             = Some (escrow1 st)" for st
    by (simp add: select_escrow_def store1_def escrow1_def)
  have who: "admitted (Confirm 6 ''a1'' alice ''e1'') (store1 st ''verified'') (escrow1 st)"
    "e_status (escrow1 ''created'') \<noteq> edge_from (Confirm 6 ''a1'' alice ''e1'')" for st
    by (simp_all add: alice_def escrow1_def)
  have run: "escrow_transactions
               (snd (handle (Confirm 6 ''a1'' alice ''e1'') (store1 ''shipped'' ''verified'')))
             = [(escrow1 ''shipped'')\<lparr>e_status := ''confirmed'', e_updated_at := 6\<rparr>]"
    by (simp add: escrow_confirm_def alice_def select_escrow_def store1_def escrow1_def
        update_escrow_def audit_def Let_def)
  show ?thesis
    using guarded_endpoints_follow_graph
        [where rq = "Confirm 6 ''a1'' alice ''e1''" and e = "escrow1 ''shipped''", OF pk [of "''shipped''"]]
      guarded_endpoints_follow_graph
        [where rq = "Confirm 6 ''a1'' alice ''e1''" and e = "escrow1 ''created''", OF pk [of "''created''"]]
      e who run
    by simp
qed

text \<open>
  The claim as stated fails on the idempotent admin actions: the released escrow is not in
  the from-state \<open>confirmed\<close> of admin release, and the request is answered 200, not 400.
\<close>

theorem guarded_endpoints_follow_graph_counterexample:
  "select_escrow (store1 ''released'' ''verified'') ''e1'' = Some (escrow1 ''released'')
   \<and> e_status (escrow1 ''released'') \<noteq> ''confirmed''
   \<and> admin_escrows_release 7 ''p1'' ''a1'' root ''e1'' (store1 ''released'' ''verified'')
       = (Response 200 ''Escrow already released'', store1 ''released'' ''verified'')"
  by (simp add: admin_escrows_release_def requireAdmin_def root_def select_escrow_def
      store1_def escrow1_def)

text \<open>
  Two of the endpoints that update the status without testing it. The payment webhook sets
  the escrow of the payment intent to \<open>funded\<close> from any status, here back from \<open>shipped\<close>;
  the fund handler refuses that with 400. Admin dispute reject sets the escrow to
  \<open>completed\<close> from any status, here from \<open>cancelled\<close>, although its comment allows the
  update from released, confirmed or dispute only.
\<close>

lemma webhooks_payments_resets_shipped:
  "fst (webhooks_payments 8 ''w1'' (Some ''t0ken'') (Some payload1) (store3 ''shipped''))
     = Response 200 ''Webhook processed''
   \<and> escrow_transactions (store3 ''shipped'') = [escrow1 ''shipped'']
   \<and> escrow_transactions
        (snd (webhooks_payments 8 ''w1'' (Some ''t0ken'') (Some payload1) (store3 ''shipped'')))
     = [(escrow1 ''shipped'')\<lparr>e_status := ''funded'', e_updated_at := 8\<rparr>]
   \<and> \<not> lifecycle_edge ''shipped'' ''funded''"
  by (simp add: webhooks_payments_def Let_def str_or_null_def str_or_def payload1_def
      select_webhook_events_def store3_def store1_def intent1_def escrow1_def
      insert_webhook_event_def update_webhook_event_def update_escrow_def
      update_payment_intent_def lifecycle_edge_def)

lemma admin_disputes_reject_completes_cancelled:
  "fst (admin_disputes_reject 8 ''a1'' root ''d1'' (store2 ''cancelled'' ''verified'' ''resolved''))
     = Response 200 ''Dispute rejected; escrow completed''
   \<and> escrow_transactions (store2 ''cancelled'' ''verified'' ''resolved'') = [escrow1 ''cancelled'']
   \<and> escrow_transactions
        (snd (admin_disputes_reject 8 ''a1'' root ''d1'' (store2 ''cancelled'' ''verified'' ''resolved'')))
     = [(escrow1 ''cancelled'')\<lparr>e_status := ''completed'', e_updated_at := 8\<rparr>]
   \<and> \<not> lifecycle_edge ''cancelled'' ''completed''"
  by (simp add: admin_disputes_reject_def requireAdmin_def root_def select_dispute_escrow_def
      select_dispute_def select_escrow_def store2_def store1_def dispute1_def escrow1_def
      update_escrow_def update_dispute_def audit_def Let_def lifecycle_edge_def)

text \<open>The three operations that check the seller's KYC status, when the seller is not
  verified: what they answer, and that they return the store they were given.\<close>

lemma admin_escrows_release_unverified:
  assumes "select_escrow s escrowId = Some e" and "\<not> kyc_verified s (e_seller_id e)"
  shows "snd (admin_escrows_release now payoutId auditId u escrowId s) = s"
    and "au_role u = ''admin'' \<Longrightarrow> e_status e = ''confirmed'' \<Longrightarrow>
         fst (admin_escrows_release now payoutId auditId u escrowId s)
           = Response 403 ''Seller is not KYC verified''"
    and "au_role u \<noteq> ''admin'' \<Longrightarrow>
         status_code (fst (admin_escrows_release now payoutId auditId u escrowId s)) = 403"
    and "au_role u = ''admin'' \<Longrightarrow> e_status e = ''released'' \<Longrightarrow>
         status_code (fst (admin_escrows_release now payoutId auditId u escrowId s)) = 200"
    and "au_role u = ''admin'' \<Longrightarrow> e_status e \<noteq> ''released'' \<Longrightarrow> e_status e \<noteq> ''confirmed'' \<Longrightarrow>
         status_code (fst (admin_escrows_release now payoutId auditId u escrowId s)) = 400"
  using assms by (simp_all add: admin_escrows_release_def requireAdmin_def)

lemma escrow_release_unverified:
  assumes "select_escrow s escrowId = Some e" and "\<not> kyc_verified s (e_seller_id e)"
  shows "snd (escrow_release now payoutId auditId u escrowId s) = s"
    and "au_role u = ''admin'' \<Longrightarrow> e_status e = ''confirmed'' \<Longrightarrow>
         fst (escrow_release now payoutId auditId u escrowId s)
           = Response 403 ''Seller is not KYC verified''"
    and "au_role u \<noteq> ''admin'' \<Longrightarrow>
         status_code (fst (escrow_release now payoutId auditId u escrowId s)) = 403"
    and "au_role u = ''admin'' \<Longrightarrow> e_status e \<noteq> ''confirmed'' \<Longrightarrow>
         status_code (fst (escrow_release now payoutId auditId u escrowId s)) = 400"
  using assms by (simp_all add: escrow_release_def)

lemma disputes_resolve_unverified:
  assumes "select_escrow s escrowId = Some e" and "\<not> kyc_verified s (e_seller_id e)"
    and "select_dispute s disputeId = Some d" and "d_escrow_id d = escrowId"
    and "rb_decision b = Some ''favor_seller''"
  shows "snd (disputes_resolve now payoutId auditId u disputeId (Some b) s) = s"
    and "au_role u = ''admin'' \<Longrightarrow> d_status d = ''open'' \<Longrightarrow>
         fst (disputes_resolve now payoutId auditId u disputeId (Some b) s)
           = Response 403 ''Seller is not KYC verified. Cannot release funds.''"
    and "au_role u \<noteq> ''admin'' \<Longrightarrow>
         status_code (fst (disputes_resolve now payoutId auditId u disputeId (Some b) s)) = 403"
    and "au_role u = ''admin'' \<Longrightarrow> d_status d \<noteq> ''open'' \<Longrightarrow>
         status_code (fst (disputes_resolve now payoutId auditId u disputeId (Some b) s)) = 400"
proof -
  have join: "select_dispute_escrow s disputeId = Some (d, e)"
    using assms by (simp add: select_dispute_escrow_def)
  show "snd (disputes_resolve now payoutId auditId u disputeId (Some b) s) = s"
    and "au_role u = ''admin'' \<Longrightarrow> d_status d = ''open'' \<Longrightarrow>
         fst (disputes_resolve now payoutId auditId u disputeId (Some b) s)
           = Response 403 ''Seller is not KYC verified. Cannot release funds.''"
    and "au_role u \<noteq> ''admin'' \<Longrightarrow>
         status_code (fst (disputes_resolve now payoutId auditId u disputeId (Some b) s)) = 403"
    and "au_role u = ''admin'' \<Longrightarrow> d_status d \<noteq> ''open'' \<Longrightarrow>
         status_code (fst (disputes_resolve now payoutId auditId u disputeId (Some b) s)) = 400"
    using assms(2,5) join
    by (simp_all add: disputes_resolve_def truthy_str_def str_val_def)
qed

text \<open>The router serves \<open>POST /api/escrow/:id/release\<close> with the first registration.\<close>

lemma post_escrow_release_first:
  "post_escrow_release now payoutId auditId payoutIdB u escrowId s
     = escrow_release now payoutId auditId u escrowId s"
  by (simp add: post_escrow_release_def)

text \<open>
  Claim C2, as amended. For every operation that releases funds or creates a payout for a
  seller, that is admin escrow release, escrow release (\<open>POST /api/escrow/:id/release\<close> with
  its two registrations, of which the admin-only one answers, also when a buyer calls) and
  dispute resolution with decision \<open>favor_seller\<close>: if the seller of the escrow is not KYC
  verified (or has no user row), the operation creates no payout row and leaves the escrow's
  status unchanged, whatever that status is; in fact it leaves the whole store unchanged. It
  answers 403 when the caller is not an admin, and 403 for the seller's KYC when an admin's
  request reaches that check, that is on a \<open>confirmed\<close> escrow (release) or on an open
  dispute (resolution). An admin's request that is stopped before that check is answered
  400 for an escrow that is not \<open>confirmed\<close> (200 from admin escrow release on an escrow that
  is already \<open>released\<close>) and 400 for a dispute that is not open.
\<close>

theorem unverified_seller_no_release:
  assumes "select_escrow s escrowId = Some e" and "\<not> kyc_verified s (e_seller_id e)"
  shows "(snd (admin_escrows_release now payoutId auditId u escrowId s) = s
          \<and> (au_role u = ''admin'' \<and> e_status e = ''confirmed'' \<longrightarrow>
               fst (admin_escrows_release now payoutId auditId u escrowId s)
                 = Response 403 ''Seller is not KYC verified'')
          \<and> (au_role u \<noteq> ''admin'' \<longrightarrow>
               status_code (fst (admin_escrows_release now payoutId auditId u escrowId s)) = 403)
          \<and> (au_role u = ''admin'' \<and> e_status e = ''released'' \<longrightarrow>
               status_code (fst (admin_escrows_release now payoutId auditId u escrowId s)) = 200)
          \<and> (au_role u = ''admin'' \<and> e_status e \<noteq> ''released'' \<and> e_status e \<noteq> ''confirmed'' \<longrightarrow>
               status_code (fst (admin_escrows_release now payoutId auditId u escrowId s)) = 400))
       \<and> (snd (post_escrow_release now payoutId auditId payoutIdB u escrowId s) = s
          \<and> (au_role u = ''admin'' \<and> e_status e = ''confirmed'' \<longrightarrow>
               fst (post_escrow_release now payoutId auditId payoutIdB u escrowId s)
                 = Response 403 ''Seller is not KYC verified'')
          \<and> (au_role u \<noteq> ''admin'' \<longrightarrow>
               fst (post_escrow_release now payoutId auditId payoutIdB u escrowId s)
                 = Response 403 ''Only admins can release escrow funds'')
          \<and> (au_role u = ''admin'' \<and> e_status e \<noteq> ''confirmed'' \<longrightarrow>
               status_code (fst (post_escrow_release now payoutId auditId payoutIdB u escrowId s))
                 = 400))
       \<and> (select_dispute s disputeId = Some d \<and> d_escrow_id d = escrowId
            \<and> rb_decision b = Some ''favor_seller'' \<longrightarrow>
          snd (disputes_resolve now payoutId auditId u disputeId (Some b) s) = s
          \<and> (au_role u = ''admin'' \<and> d_status d = ''open'' \<longrightarrow>
               fst (disputes_resolve now payoutId auditId u disputeId (Some b) s)
                 = Response 403 ''Seller is not KYC verified. Cannot release funds.'')
          \<and> (au_role u \<noteq> ''admin'' \<longrightarrow>
               status_code (fst (disputes_resolve now payoutId auditId u disputeId (Some b) s)) = 403)
          \<and> (au_role u = ''admin'' \<and> d_status d \<noteq> ''open'' \<longrightarrow>
               status_code (fst (disputes_resolve now payoutId auditId u disputeId (Some b) s)) = 400))"
proof -
  have buyer: "fst (escrow_release now payoutId auditId u escrowId s)
                 = Response 403 ''Only admins can release escrow funds''"
    if "au_role u \<noteq> ''admin''"
    using that by (simp add: escrow_release_def)
  show ?thesis
    using admin_escrows_release_unverified
        [where now = now and payoutId = payoutId and auditId = auditId and u = u, OF assms]
      escrow_release_unverified
        [where now = now and payoutId = payoutId and auditId = auditId and u = u, OF assms]
      disputes_resolve_unverified
        [where now = now and payoutId = payoutId and auditId = auditId and u = u
           and disputeId = disputeId and d = d and b = b, OF assms]
      buyer
    by (simp add: post_escrow_release_first)
qed

theorem unverified_seller_no_release_witness:
  "admin_escrows_release 7 ''p1'' ''a1'' root ''e1'' (store2 ''confirmed'' ''pending'' ''open'')
     = (Response 403 ''Seller is not KYC verified'', store2 ''confirmed'' ''pending'' ''open'')
   \<and> post_escrow_release 7 ''p1'' ''a1'' ''p2'' root ''e1''
        (store2 ''confirmed'' ''pending'' ''open'')
     = (Response 403 ''Seller is not KYC verified'', store2 ''confirmed'' ''pending'' ''open'')
   \<and> post_escrow_release 7 ''p1'' ''a1'' ''p2'' alice ''e1''
        (store2 ''confirmed'' ''pending'' ''open'')
     = (Response 403 ''Only admins can release escrow funds'',
        store2 ''confirmed'' ''pending'' ''open'')
   \<and> disputes_resolve 7 ''p1'' ''a1'' root ''d1''
        (Some \<lparr>rb_decision = Some ''favor_seller'', rb_note = None\<rparr>)
        (store2 ''confirmed'' ''pending'' ''open'')
     = (Response 403 ''Seller is not KYC verified. Cannot release funds.'',
        store2 ''confirmed'' ''pending'' ''open'')"
proof -
  have e: "select_escrow (store2 ''confirmed'' ''pending'' ''open'') ''e1''
             = Some (escrow1 ''confirmed'')"
    by (simp add: select_escrow_def store2_def store1_def escrow1_def)
  have kyc: "\<not> kyc_verified (store2 ''confirmed'' ''pending'' ''open'')
                  (e_seller_id (escrow1 ''confirmed''))"
    by (simp add: kyc_verified_def select_user_def store2_def store1_def escrow1_def)
  have d: "select_dispute (store2 ''confirmed'' ''pending'' ''open'') ''d1'' = Some (dispute1 ''open'')"
    "d_escrow_id (dispute1 ''open'') = ''e1''" "d_status (dispute1 ''open'') = ''open''"
    by (simp_all add: select_dispute_def store2_def dispute1_def)
  have who: "au_role root = ''admin''" "e_status (escrow1 ''confirmed'') = ''confirmed''"
    "au_role alice \<noteq> ''admin''"
    by (simp_all add: root_def alice_def escrow1_def)
  show ?thesis
    using unverified_seller_no_release
        [where now = 7 and payoutId = "''p1''" and auditId = "''a1''" and payoutIdB = "''p2''"
           and u = root and disputeId = "''d1''" and d = "dispute1 ''open''"
           and b = "\<lparr>rb_decision = Some ''favor_seller'', rb_note = None\<rparr>", OF e kyc]
      unverified_seller_no_release
        [where now = 7 and payoutId = "''p1''" and auditId = "''a1''" and payoutIdB = "''p2''"
           and u = alice and disputeId = "''d1''" and d = "dispute1 ''open''"
           and b = "\<lparr>rb_decision = Some ''favor_seller'', rb_note = None\<rparr>", OF e kyc]
      d who
    by (simp add: prod_eq_iff)
qed

text \<open>
  The claim as stated fails on an escrow that is not \<open>confirmed\<close>: Bob is not verified, and
  the admin's release of the \<open>created\<close> escrow is answered 400, where the claim has 403.
\<close>

theorem unverified_seller_no_release_counterexample:
  "select_escrow (store1 ''created'' ''pending'') ''e1'' = Some (escrow1 ''created'')
   \<and> \<not> kyc_verified (store1 ''created'' ''pending'') (e_seller_id (escrow1 ''created''))
   \<and> admin_escrows_release 7 ''p1'' ''a1'' root ''e1'' (store1 ''created'' ''pending'')
       = (Response 400 ''Escrow must be 'confirmed' before release'', store1 ''created'' ''pending'')"
  by (simp add: admin_escrows_release_def requireAdmin_def root_def select_escrow_def
      kyc_verified_def select_user_def store1_def escrow1_def)

text \<open>
  Claim C3, as amended. On the ship handler with the KYC and ownership checks, a ship request
  that carries a body moves an existing escrow to \<open>shipped\<close> exactly when the caller has role
  \<open>seller\<close>, is KYC verified, is the \<open>seller_id\<close> of the escrow and the escrow is \<open>funded\<close>;
  then the row of that escrow has status \<open>shipped\<close> and every other escrow row is as it was.
  A caller who fails one of the three conditions on the caller is answered 403, a caller
  who meets them on an escrow that is not \<open>funded\<close> is answered 400, and in both cases the
  store is unchanged. A request without a body is answered 400, whoever calls and whatever the
  status, and changes nothing.
\<close>

theorem escrow_ship_checks:
  assumes "select_escrow s escrowId = Some e"
  shows "let r = fst (escrow_ship now auditId baseUrl u escrowId files (Some b) s);
             s' = snd (escrow_ship now auditId baseUrl u escrowId files (Some b) s);
             entitled = (au_role u = ''seller'' \<and> kyc_verified s (au_id u)
                         \<and> e_seller_id e = au_id u)
         in (status_code r = 200 \<longleftrightarrow> entitled \<and> e_status e = ''funded'')
          \<and> (status_code r = 200 \<longrightarrow>
                map_option e_status (select_escrow s' escrowId) = Some ''shipped''
              \<and> list_all2 (\<lambda>x y. if e_id x = escrowId
                                   then e_id y = e_id x \<and> e_status y = ''shipped''
                                   else y = x)
                   (escrow_transactions s) (escrow_transactions s'))
          \<and> (\<not> entitled \<longrightarrow> status_code r = 403 \<and> s' = s)
          \<and> (entitled \<and> e_status e \<noteq> ''funded'' \<longrightarrow> status_code r = 400 \<and> s' = s)
          \<and> escrow_ship now auditId baseUrl u escrowId files None s
              = (Response 400 ''No request body received'', s)"
proof -
  define f :: "escrow \<Rightarrow> escrow" where "f = (\<lambda>x. x\<lparr>e_status := ''shipped'',
                   e_seller_proof_url :=
                     coalesce (map_option (\<lambda>f. baseUrl @ ''/uploads/shipping/'' @ f_basename f)
                                 (case files of [] \<Rightarrow> None | f # _ \<Rightarrow> Some f))
                       (e_seller_proof_url x),
                   e_seller_receipt_number :=
                     coalesce (str_or_null (Some (str_val (nullish
                        [sb_tracking_number b, sb_tracking_no b, sb_trackingNo b,
                         sb_shipping_receipt b, sb_shipping_receipt_number b, sb_receipt b]))))
                       (e_seller_receipt_number x),
                   e_updated_at := now\<rparr>)"
  have f: "e_id (f x) = e_id x" "e_status (f x) = ''shipped''" for x
    by (simp_all add: f_def)
  let ?run = "escrow_ship now auditId baseUrl u escrowId files (Some b) s"
  let ?entitled = "au_role u = ''seller'' \<and> kyc_verified s (au_id u) \<and> e_seller_id e = au_id u"
  have ok: "fst ?run = Response 200 ''Escrow marked as shipped''
            \<and> snd ?run = audit now auditId (au_id u) ''ship'' ''escrow_transactions'' escrowId
                 (JObject
                    [(''tracking_number'', json_str (str_or_null (Some (str_val (nullish
                        [sb_tracking_number b, sb_tracking_no b, sb_trackingNo b,
                         sb_shipping_receipt b, sb_shipping_receipt_number b, sb_receipt b]))))),
                     (''file'', JObject (file_json (case files of [] \<Rightarrow> None | f # _ \<Rightarrow> Some f)
                        @ [(''url'', json_str (map_option
                              (\<lambda>f. baseUrl @ ''/uploads/shipping/'' @ f_basename f)
                              (case files of [] \<Rightarrow> None | f # _ \<Rightarrow> Some f)))]))])
                 (update_escrow escrowId f s)"
    if "?entitled" "e_status e = ''funded''"
    using that assms unfolding escrow_ship_def f_def Let_def by simp
  have sel: "select_escrow (snd ?run) escrowId = Some (f e)"
    if "?entitled" "e_status e = ''funded''"
    using ok [OF that] select_escrow_updated [OF assms, of f] f(1) by simp
  have rows: "list_all2 (\<lambda>x y. if e_id x = escrowId
                                 then e_id y = e_id x \<and> e_status y = ''shipped'' else y = x)
                (escrow_transactions s) (escrow_transactions (snd ?run))"
    if "?entitled" "e_status e = ''funded''"
    using ok [OF that] f
    by (simp add: update_escrow_def audit_def list.rel_map list_all2_same)
  have no: "status_code (fst ?run) = 403 \<and> snd ?run = s" if "\<not> ?entitled"
    using that assms unfolding escrow_ship_def Let_def by auto
  have st: "status_code (fst ?run) = 400 \<and> snd ?run = s"
    if "?entitled" "e_status e \<noteq> ''funded''"
    using that assms unfolding escrow_ship_def Let_def by simp
  have none: "escrow_ship now auditId baseUrl u escrowId files None s
              = (Response 400 ''No request body received'', s)"
    by (simp add: escrow_ship_def Let_def)
  have code: "status_code (fst ?run) = 200 \<longleftrightarrow> ?entitled \<and> e_status e = ''funded''"
  proof (cases ?entitled)
    case False
    with no [OF False] show ?thesis by auto
  next
    case True
    then show ?thesis using ok [OF True] st [OF True] by (cases "e_status e = ''funded''") simp_all
  qed
  show ?thesis
    unfolding Let_def code
    using sel rows no st none f(2) by simp
qed

theorem escrow_ship_checks_witness:
  "status_code (fst (escrow_ship 5 ''a1'' [] bob ''e1'' [] (Some ship1)
      (store1 ''funded'' ''verified''))) = 200
   \<and> map_option e_status (select_escrow (snd (escrow_ship 5 ''a1'' [] bob ''e1'' [] (Some ship1)
      (store1 ''funded'' ''verified''))) ''e1'') = Some ''shipped''
   \<and> status_code (fst (escrow_ship 5 ''a1'' [] mallory ''e1'' [] (Some ship1)
      (store1 ''funded'' ''verified''))) = 403
   \<and> snd (escrow_ship 5 ''a1'' [] mallory ''e1'' [] (Some ship1) (store1 ''funded'' ''verified''))
      = store1 ''funded'' ''verified''
   \<and> status_code (fst (escrow_ship 5 ''a1'' [] bob ''e1'' [] (Some ship1)
      (store1 ''funded'' ''pending''))) = 403
   \<and> status_code (fst (escrow_ship 5 ''a1'' [] bob ''e1'' [] (Some ship1)
      (store1 ''created'' ''verified''))) = 400
   \<and> snd (escrow_ship 5 ''a1'' [] bob ''e1'' [] (Some ship1) (store1 ''created'' ''verified''))
      = store1 ''created'' ''verified''"
proof -
  have e: "select_escrow (store1 st kyc) ''e1'' = Some (escrow1 st)" for st kyc
    by (simp add: select_escrow_def store1_def escrow1_def)
  have kyc: "kyc_verified (store1 st ''verified'') (au_id bob)"
    "\<not> kyc_verified (store1 st ''pending'') (au_id bob)"
    "\<not> kyc_verified (store1 st ''verified'') (au_id mallory)" for st
    by (simp_all add: kyc_verified_def select_user_def store1_def bob_def mallory_def)
  have who: "au_role bob = ''seller''" "e_seller_id (escrow1 st) = au_id bob"
    "e_seller_id (escrow1 st) \<noteq> au_id mallory" "e_status (escrow1 st) = st" for st
    by (simp_all add: bob_def mallory_def escrow1_def)
  show ?thesis
    using escrow_ship_checks
        [where now = 5 and auditId = "''a1''" and baseUrl = "[]" and u = bob and files = "[]"
           and b = ship1, OF e [of "''funded''" "''verified''"]]
      escrow_ship_checks
        [where now = 5 and auditId = "''a1''" and baseUrl = "[]" and u = mallory and files = "[]"
           and b = ship1, OF e [of "''funded''" "''verified''"]]
      escrow_ship_checks
        [where now = 5 and auditId = "''a1''" and baseUrl = "[]" and u = bob and files = "[]"
           and b = ship1, OF e [of "''funded''" "''pending''"]]
      escrow_ship_checks
        [where now = 5 and auditId = "''a1''" and baseUrl = "[]" and u = bob and files = "[]"
           and b = ship1, OF e [of "''created''" "''verified''"]]
      kyc who
    by (simp add: Let_def)
qed

text \<open>
  The claim as stated fails on a request without a body: Alice, who has role \<open>buyer\<close>, asks
  to ship the funded escrow and is answered 400, where the claim has 403.
\<close>

theorem escrow_ship_checks_counterexample:
  "au_role alice \<noteq> ''seller''
   \<and> select_escrow (store1 ''funded'' ''verified'') ''e1'' = Some (escrow1 ''funded'')
   \<and> e_status (escrow1 ''funded'') = ''funded''
   \<and> escrow_ship 5 ''a1'' [] alice ''e1'' [] None (store1 ''funded'' ''verified'')
       = (Response 400 ''No request body received'', store1 ''funded'' ''verified'')"
  by (simp add: escrow_ship_def alice_def escrow1_def store1_def select_escrow_def)

text \<open>
  The ship handler of the other copy of the escrow routes checks the role only: Mallory, a
  seller who is neither the seller of the escrow nor KYC verified, ships Bob's escrow.
\<close>

lemma escrow_ship_role_only_any_seller:
  "au_id mallory \<noteq> e_seller_id (escrow1 ''funded'')
   \<and> \<not> kyc_verified (store1 ''funded'' ''verified'') (au_id mallory)
   \<and> fst (escrow_ship_role_only 5 ''a1'' mallory ''e1''
        (Some ship1)
        (store1 ''funded'' ''verified''))
       = Response 200 ''Escrow marked as shipped''
   \<and> escrow_transactions (snd (escrow_ship_role_only 5 ''a1'' mallory ''e1''
        (Some ship1)
        (store1 ''funded'' ''verified'')))
       = [(escrow1 ''funded'')\<lparr>e_status := ''shipped'', e_updated_at := 5\<rparr>]"
  by (simp add: escrow_ship_role_only_def ship1_def mallory_def escrow1_def store1_def select_escrow_def
      select_user_def kyc_verified_def update_escrow_def audit_def Let_def)

text \<open>Each of the four idempotent admin actions, called again after a call that answered
  200, answers 200 by its special case and returns the store it was given.\<close>

lemma admin_disputes_reject_twice:
  assumes "status_code (fst (admin_disputes_reject now auditId u ident s)) = 200"
    and "au_role v = ''admin''"
  shows "admin_disputes_reject later auditIdB v ident (snd (admin_disputes_reject now auditId u ident s))
         = (Response 200 ''Dispute already rejected and escrow completed'',
            snd (admin_disputes_reject now auditId u ident s))"
proof -
  from assms(1) obtain d e where admin: "au_role u = ''admin''"
    and join: "select_dispute_escrow s ident = Some (d, e)"
    by (auto simp: admin_disputes_reject_def requireAdmin_def split: option.splits if_splits)
  show ?thesis
  proof (cases "d_status d = ''rejected'' \<and> e_status e = ''completed''")
    case True
    then have same: "admin_disputes_reject now auditId u ident s
                       = (Response 200 ''Dispute already rejected and escrow completed'', s)"
      using admin join by (simp add: admin_disputes_reject_def requireAdmin_def)
    show ?thesis
      using True assms(2) join by (simp add: same admin_disputes_reject_def requireAdmin_def)
  next
    case False
    let ?s' = "audit now auditId (au_id u) ''dispute_reject'' ''disputes'' ident
                 (JObject [(''escrow_id'', JStr (d_escrow_id d)), (''to'', JStr ''rejected'')])
                 (update_dispute ident (\<lambda>d. d\<lparr>d_status := ''rejected'', d_updated_at := Some now\<rparr>)
                    (update_escrow (d_escrow_id d)
                       (\<lambda>e. e\<lparr>e_status := ''completed'', e_updated_at := now\<rparr>) s))"
    have run: "admin_disputes_reject now auditId u ident s
                 = (Response 200 ''Dispute rejected; escrow completed'', ?s')"
      using False admin join
      by (auto simp: admin_disputes_reject_def requireAdmin_def Let_def)
    have "select_dispute_escrow ?s' ident
            = Some (d\<lparr>d_status := ''rejected'', d_updated_at := Some now\<rparr>,
                    e\<lparr>e_status := ''completed'', e_updated_at := now\<rparr>)"
      by (rule select_dispute_escrow_updated [OF join]) simp_all
    then show ?thesis
      using assms(2) by (simp add: run admin_disputes_reject_def [of later] requireAdmin_def)
  qed
qed


lemma admin_disputes_approve_twice:
  assumes "status_code (fst (admin_disputes_approve now auditId u ident s)) = 200"
    and "au_role v = ''admin''"
  shows "admin_disputes_approve later auditIdB v ident
           (snd (admin_disputes_approve now auditId u ident s))
         = (Response 200 ''Dispute already approved and escrow cancelled'',
            snd (admin_disputes_approve now auditId u ident s))"
proof -
  from assms(1) obtain d e where admin: "au_role u = ''admin''"
    and join: "select_dispute_escrow s ident = Some (d, e)"
    by (auto simp: admin_disputes_approve_def requireAdmin_def split: option.splits if_splits)
  show ?thesis
  proof (cases "d_status d = ''resolved'' \<and> e_status e = ''cancelled''")
    case True
    then have same: "admin_disputes_approve now auditId u ident s
                       = (Response 200 ''Dispute already approved and escrow cancelled'', s)"
      using admin join by (simp add: admin_disputes_approve_def requireAdmin_def)
    show ?thesis
      using True assms(2) join by (simp add: same admin_disputes_approve_def requireAdmin_def)
  next
    case False
    let ?s' = "audit now auditId (au_id u) ''dispute_approve'' ''disputes'' ident
                 (JObject [(''escrow_id'', JStr (d_escrow_id d)), (''to'', JStr ''resolved'')])
                 (update_dispute ident (\<lambda>d. d\<lparr>d_status := ''resolved'', d_updated_at := Some now\<rparr>)
                    (update_escrow (d_escrow_id d)
                       (\<lambda>e. e\<lparr>e_status := ''cancelled'', e_updated_at := now\<rparr>) s))"
    have run: "admin_disputes_approve now auditId u ident s
                 = (Response 200 ''Dispute approved; escrow cancelled'', ?s')"
      using False admin join
      by (auto simp: admin_disputes_approve_def requireAdmin_def Let_def)
    have "select_dispute_escrow ?s' ident
            = Some (d\<lparr>d_status := ''resolved'', d_updated_at := Some now\<rparr>,
                    e\<lparr>e_status := ''cancelled'', e_updated_at := now\<rparr>)"
      by (rule select_dispute_escrow_updated [OF join]) simp_all
    then show ?thesis
      using assms(2) by (simp add: run admin_disputes_approve_def [of later] requireAdmin_def)
  qed
qed

lemma admin_escrows_release_twice:
  assumes "status_code (fst (admin_escrows_release now payoutId auditId u escrowId s)) = 200"
    and "au_role v = ''admin''"
  shows "admin_escrows_release later payoutIdB auditIdB v escrowId
           (snd (admin_escrows_release now payoutId auditId u escrowId s))
         = (Response 200 ''Escrow already released'',
            snd (admin_escrows_release now payoutId auditId u escrowId s))"
proof -
  from assms(1) obtain e where admin: "au_role u = ''admin''"
    and e: "select_escrow s escrowId = Some e"
    and st: "e_status e = ''released'' \<or> e_status e = ''confirmed'' \<and> kyc_verified s (e_seller_id e)"
    by (auto simp: admin_escrows_release_def requireAdmin_def split: option.splits if_splits)
  show ?thesis
  proof (cases "e_status e = ''released''")
    case True
    then have same: "admin_escrows_release now payoutId auditId u escrowId s
                       = (Response 200 ''Escrow already released'', s)"
      using admin e by (simp add: admin_escrows_release_def requireAdmin_def)
    show ?thesis
      using True assms(2) e by (simp add: same admin_escrows_release_def requireAdmin_def)
  next
    case False
    let ?s1 = "update_escrow escrowId (\<lambda>e. e\<lparr>e_status := ''released'', e_updated_at := now\<rparr>) s"
    let ?s' = "audit now auditId (au_id u) ''release'' ''escrow_transactions'' escrowId
                 (JObject [(''status'', JStr ''released''), (''by'', JStr ''admin'')])
                 (insert_payout (seller_payout now payoutId escrowId (e_seller_id e) ?s1) ?s1)"
    have run: "admin_escrows_release now payoutId auditId u escrowId s
                 = (Response 200 ''Escrow released by admin, payout initiated'', ?s')"
      using False st admin e
      by (auto simp: admin_escrows_release_def requireAdmin_def Let_def)
    have "select_escrow ?s' escrowId = Some (e\<lparr>e_status := ''released'', e_updated_at := now\<rparr>)"
      using select_escrow_updated [OF e, of "\<lambda>e. e\<lparr>e_status := ''released'', e_updated_at := now\<rparr>"]
      by simp
    then show ?thesis
      using assms(2) by (simp add: run admin_escrows_release_def [of later] requireAdmin_def)
  qed
qed

lemma admin_escrows_complete_twice:
  assumes "status_code (fst (admin_escrows_complete now payoutAuditId auditId u escrowId s)) = 200"
    and "au_role v = ''admin''"
  shows "admin_escrows_complete later payoutAuditIdB auditIdB v escrowId
           (snd (admin_escrows_complete now payoutAuditId auditId u escrowId s))
         = (Response 200 ''Escrow already completed'',
            snd (admin_escrows_complete now payoutAuditId auditId u escrowId s))"
proof -
  from assms(1) obtain e where admin: "au_role u = ''admin''"
    and e: "select_escrow s escrowId = Some e"
    and st: "e_status e = ''completed'' \<or> e_status e = ''released''"
    by (auto simp: admin_escrows_complete_def requireAdmin_def split: option.splits if_splits)
  show ?thesis
  proof (cases "e_status e = ''completed''")
    case True
    then have same: "admin_escrows_complete now payoutAuditId auditId u escrowId s
                       = (Response 200 ''Escrow already completed'', s)"
      using admin e by (simp add: admin_escrows_complete_def requireAdmin_def)
    show ?thesis
      using True assms(2) e by (simp add: same admin_escrows_complete_def requireAdmin_def)
  next
    case False
    let ?s' = "snd (admin_escrows_complete now payoutAuditId auditId u escrowId s)"
    have "select_escrow ?s' escrowId = Some (e\<lparr>e_status := ''completed'', e_updated_at := now\<rparr>)"
      using False st admin e
        select_escrow_updated [OF e, of "\<lambda>e. e\<lparr>e_status := ''completed'', e_updated_at := now\<rparr>"]
      by (auto simp: admin_escrows_complete_def requireAdmin_def Let_def split: option.splits)
    then show ?thesis
      using assms(2) by (simp add: admin_escrows_complete_def [of later] requireAdmin_def)
  qed
qed

text \<open>
  Claim C4. For each of the admin endpoints dispute reject, dispute approve, escrow release
  and escrow complete: when a call has answered 200, a second call by an admin on the store
  that the first call left answers 200 as well and leaves that store exactly as it is, so
  that the dispute, escrow and payout rows (and every other table) are those after the
  first call.
\<close>

theorem admin_actions_idempotent:
  assumes "au_role v = ''admin''"
  shows "(status_code (fst (admin_disputes_reject now auditId u ident s)) = 200 \<longrightarrow>
            status_code (fst (admin_disputes_reject later auditIdB v ident
               (snd (admin_disputes_reject now auditId u ident s)))) = 200
          \<and> snd (admin_disputes_reject later auditIdB v ident
               (snd (admin_disputes_reject now auditId u ident s)))
            = snd (admin_disputes_reject now auditId u ident s))
       \<and> (status_code (fst (admin_disputes_approve now auditId u ident s)) = 200 \<longrightarrow>
            status_code (fst (admin_disputes_approve later auditIdB v ident
               (snd (admin_disputes_approve now auditId u ident s)))) = 200
          \<and> snd (admin_disputes_approve later auditIdB v ident
               (snd (admin_disputes_approve now auditId u ident s)))
            = snd (admin_disputes_approve now auditId u ident s))
       \<and> (status_code (fst (admin_escrows_release now payoutId auditId u escrowId s)) = 200 \<longrightarrow>
            status_code (fst (admin_escrows_release later payoutIdB auditIdB v escrowId
               (snd (admin_escrows_release now payoutId auditId u escrowId s)))) = 200
          \<and> snd (admin_escrows_release later payoutIdB auditIdB v escrowId
               (snd (admin_escrows_release now payoutId auditId u escrowId s)))
            = snd (admin_escrows_release now payoutId auditId u escrowId s))
       \<and> (status_code (fst (admin_escrows_complete now payoutId auditId u escrowId s)) = 200 \<longrightarrow>
            status_code (fst (admin_escrows_complete later payoutIdB auditIdB v escrowId
               (snd (admin_escrows_complete now payoutId auditId u escrowId s)))) = 200
          \<and> snd (admin_escrows_complete later payoutIdB auditIdB v escrowId
               (snd (admin_escrows_complete now payoutId auditId u escrowId s)))
            = snd (admin_escrows_complete now payoutId auditId u escrowId s))"
  using admin_disputes_reject_twice [OF _ assms, of now auditId u ident s later auditIdB]
    admin_disputes_approve_twice [OF _ assms, of now auditId u ident s later auditIdB]
    admin_escrows_release_twice [OF _ assms, of now payoutId auditId u escrowId s later payoutIdB auditIdB]
    admin_escrows_complete_twice [OF _ assms, of now payoutId auditId u escrowId s later payoutIdB auditIdB]
  by simp


theorem admin_actions_idempotent_witness:
  "status_code (fst (admin_disputes_reject 8 ''a2'' root ''d1''
      (snd (admin_disputes_reject 7 ''a1'' root ''d1'' (store2 ''confirmed'' ''verified'' ''open''))))) = 200
   \<and> snd (admin_disputes_reject 8 ''a2'' root ''d1''
      (snd (admin_disputes_reject 7 ''a1'' root ''d1'' (store2 ''confirmed'' ''verified'' ''open''))))
     = snd (admin_disputes_reject 7 ''a1'' root ''d1'' (store2 ''confirmed'' ''verified'' ''open''))
   \<and> status_code (fst (admin_disputes_approve 8 ''a2'' root ''d1''
      (snd (admin_disputes_approve 7 ''a1'' root ''d1'' (store2 ''confirmed'' ''verified'' ''open''))))) = 200
   \<and> snd (admin_disputes_approve 8 ''a2'' root ''d1''
      (snd (admin_disputes_approve 7 ''a1'' root ''d1'' (store2 ''confirmed'' ''verified'' ''open''))))
     = snd (admin_disputes_approve 7 ''a1'' root ''d1'' (store2 ''confirmed'' ''verified'' ''open''))
   \<and> status_code (fst (admin_escrows_release 8 ''p2'' ''a2'' root ''e1''
      (snd (admin_escrows_release 7 ''p1'' ''a1'' root ''e1'' (store2 ''confirmed'' ''verified'' ''open''))))) = 200
   \<and> snd (admin_escrows_release 8 ''p2'' ''a2'' root ''e1''
      (snd (admin_escrows_release 7 ''p1'' ''a1'' root ''e1'' (store2 ''confirmed'' ''verified'' ''open''))))
     = snd (admin_escrows_release 7 ''p1'' ''a1'' root ''e1'' (store2 ''confirmed'' ''verified'' ''open''))
   \<and> status_code (fst (admin_escrows_complete 8 ''p2'' ''a2'' root ''e1''
      (snd (admin_escrows_complete 7 ''p1'' ''a1'' root ''e1'' (store2 ''released'' ''verified'' ''open''))))) = 200
   \<and> snd (admin_escrows_complete 8 ''p2'' ''a2'' root ''e1''
      (snd (admin_escrows_complete 7 ''p1'' ''a1'' root ''e1'' (store2 ''released'' ''verified'' ''open''))))
     = snd (admin_escrows_complete 7 ''p1'' ''a1'' root ''e1'' (store2 ''released'' ''verified'' ''open''))"
proof -
  have admin: "au_role root = ''admin''"
    by (simp add: root_def)
  have d: "select_dispute_escrow (store2 st ''verified'' ''open'') ''d1''
             = Some (dispute1 ''open'', escrow1 st)" for st
    by (simp add: select_dispute_escrow_def select_dispute_def select_escrow_def store2_def
        store1_def dispute1_def escrow1_def)
  have e: "select_escrow (store2 st ''verified'' ''open'') ''e1'' = Some (escrow1 st)" for st
    by (simp add: select_escrow_def store2_def store1_def escrow1_def)
  have kyc: "kyc_verified (store2 st ''verified'' ''open'') ''bob''" for st
    by (simp add: kyc_verified_def select_user_def store2_def store1_def)
  have r1: "status_code (fst (admin_disputes_reject 7 ''a1'' root ''d1''
              (store2 ''confirmed'' ''verified'' ''open''))) = 200"
    by (simp add: admin_disputes_reject_def requireAdmin_def admin d Let_def dispute1_def)
  have r2: "status_code (fst (admin_disputes_approve 7 ''a1'' root ''d1''
              (store2 ''confirmed'' ''verified'' ''open''))) = 200"
    by (simp add: admin_disputes_approve_def requireAdmin_def admin d Let_def dispute1_def)
  have r3: "status_code (fst (admin_escrows_release 7 ''p1'' ''a1'' root ''e1''
              (store2 ''confirmed'' ''verified'' ''open''))) = 200"
    using kyc [of "''confirmed''"]
    by (simp add: admin_escrows_release_def requireAdmin_def admin e Let_def escrow1_def)
  have r4: "status_code (fst (admin_escrows_complete 7 ''p1'' ''a1'' root ''e1''
              (store2 ''released'' ''verified'' ''open''))) = 200"
    by (simp add: admin_escrows_complete_def requireAdmin_def admin e Let_def escrow1_def)
  show ?thesis
    using r1 r2 r3 r4
      admin_actions_idempotent
        [where now = 7 and auditId = "''a1''" and payoutId = "''p1''" and u = root
           and ident = "''d1''" and escrowId = "''e1''" and later = 8 and auditIdB = "''a2''"
           and payoutIdB = "''p2''" and s = "store2 ''confirmed'' ''verified'' ''open''",
         OF admin]
      admin_actions_idempotent
        [where now = 7 and auditId = "''a1''" and payoutId = "''p1''" and u = root
           and ident = "''d1''" and escrowId = "''e1''" and later = 8 and auditIdB = "''a2''"
           and payoutIdB = "''p2''" and s = "store2 ''released'' ''verified'' ''open''",
         OF admin]
    by simp
qed

text \<open>
  Claim C5. An admin's resolve request with decision \<open>favor_seller\<close> on an open dispute whose
  escrow's seller is KYC verified sets the status of that escrow to \<open>released\<close> (and of no
  other escrow), appends exactly one payout row, which is for that escrow, and sets the
  dispute's status to \<open>resolved\<close>. If the dispute is not open, an admin's resolve request,
  whatever its decision, is answered 400 and leaves the whole store as it was.
\<close>

theorem disputes_resolve_favor_seller:
  assumes "au_role u = ''admin''"
    and "select_dispute s disputeId = Some d"
    and "select_escrow s (d_escrow_id d) = Some e"
  shows "(rb_decision b = Some ''favor_seller'' \<and> d_status d = ''open''
            \<and> kyc_verified s (e_seller_id e) \<longrightarrow>
          fst (disputes_resolve now payoutId auditId u disputeId (Some b) s)
            = Response 200 ''Dispute resolved successfully''
          \<and> escrow_transactions (snd (disputes_resolve now payoutId auditId u disputeId (Some b) s))
            = map (\<lambda>x. if e_id x = d_escrow_id d
                        then x\<lparr>e_status := ''released'', e_updated_at := now\<rparr> else x)
                (escrow_transactions s)
          \<and> select_escrow (snd (disputes_resolve now payoutId auditId u disputeId (Some b) s))
                (d_escrow_id d)
            = Some (e\<lparr>e_status := ''released'', e_updated_at := now\<rparr>)
          \<and> payouts (snd (disputes_resolve now payoutId auditId u disputeId (Some b) s))
            = payouts s @ [simulated_payout payoutId (d_escrow_id d)]
          \<and> p_escrow_id (simulated_payout payoutId (d_escrow_id d)) = d_escrow_id d
          \<and> select_dispute (snd (disputes_resolve now payoutId auditId u disputeId (Some b) s))
                disputeId
            = Some (d\<lparr>d_status := ''resolved'', d_resolved_at := Some now\<rparr>))
       \<and> (d_status d \<noteq> ''open'' \<longrightarrow>
            status_code (fst (disputes_resolve now payoutId auditId u disputeId (Some b) s)) = 400
          \<and> snd (disputes_resolve now payoutId auditId u disputeId (Some b) s) = s)"
proof -
  let ?run = "disputes_resolve now payoutId auditId u disputeId (Some b) s"
  have key: "d_id d = disputeId" "e_id e = d_escrow_id d"
    using assms(2,3) by (auto simp: select_dispute_def select_escrow_def dest: find_Some_iff[THEN iffD1])
  have join: "select_dispute_escrow s disputeId = Some (d, e)"
    using assms by (simp add: select_dispute_escrow_def)
  have closed: "status_code (fst ?run) = 400 \<and> snd ?run = s"
    if "d_status d \<noteq> ''open''"
    using that assms(1) join by (simp add: disputes_resolve_def)
  have run: "?run = resolve_finish now auditId u disputeId b
                      (insert_payout (simulated_payout payoutId (d_escrow_id d))
                         (update_escrow (d_escrow_id d)
                            (\<lambda>e. e\<lparr>e_status := ''released'', e_updated_at := now\<rparr>) s))"
    if "rb_decision b = Some ''favor_seller''" "d_status d = ''open''"
       "kyc_verified s (e_seller_id e)"
    using that assms(1) join
    by (simp add: disputes_resolve_def Let_def truthy_str_def str_val_def)
  have c1: "fst ?run = Response 200 ''Dispute resolved successfully''"
    if "rb_decision b = Some ''favor_seller''" "d_status d = ''open''"
       "kyc_verified s (e_seller_id e)"
    using run [OF that] by (simp add: resolve_finish_tables)
  have c2: "escrow_transactions (snd ?run)
            = map (\<lambda>x. if e_id x = d_escrow_id d
                        then x\<lparr>e_status := ''released'', e_updated_at := now\<rparr> else x)
                (escrow_transactions s)"
    if "rb_decision b = Some ''favor_seller''" "d_status d = ''open''"
       "kyc_verified s (e_seller_id e)"
    using run [OF that]
    by (simp add: resolve_finish_tables insert_payout_def update_escrow_def)
  have c3: "select_escrow (snd ?run) (d_escrow_id d)
            = Some (e\<lparr>e_status := ''released'', e_updated_at := now\<rparr>)"
    if "rb_decision b = Some ''favor_seller''" "d_status d = ''open''"
       "kyc_verified s (e_seller_id e)"
    using c2 [OF that] assms(3) key(2)
      find_map_key [of e_id "\<lambda>x. x\<lparr>e_status := ''released'', e_updated_at := now\<rparr>"
        "d_escrow_id d" "d_escrow_id d" "escrow_transactions s"]
    by (simp add: select_escrow_def)
  have c4: "payouts (snd ?run) = payouts s @ [simulated_payout payoutId (d_escrow_id d)]"
    if "rb_decision b = Some ''favor_seller''" "d_status d = ''open''"
       "kyc_verified s (e_seller_id e)"
    using run [OF that]
    by (simp add: resolve_finish_tables insert_payout_def update_escrow_def)
  have c5: "select_dispute (snd ?run) disputeId
            = Some (d\<lparr>d_status := ''resolved'', d_resolved_at := Some now\<rparr>)"
    if "rb_decision b = Some ''favor_seller''" "d_status d = ''open''"
       "kyc_verified s (e_seller_id e)"
    using run [OF that] assms(2) key(1)
    by (simp add: resolve_finish_tables)
  have c6: "p_escrow_id (simulated_payout payoutId (d_escrow_id d)) = d_escrow_id d"
    by (simp add: simulated_payout_def)
  show ?thesis
    using c1 c2 c3 c4 c5 c6 closed by simp
qed

theorem disputes_resolve_favor_seller_witness:
  "fst (disputes_resolve 9 ''p1'' ''a1'' root ''d1''
          (Some \<lparr>rb_decision = Some ''favor_seller'', rb_note = None\<rparr>)
          (store2 ''shipped'' ''verified'' ''open''))
     = Response 200 ''Dispute resolved successfully''
   \<and> select_escrow (snd (disputes_resolve 9 ''p1'' ''a1'' root ''d1''
          (Some \<lparr>rb_decision = Some ''favor_seller'', rb_note = None\<rparr>)
          (store2 ''shipped'' ''verified'' ''open''))) ''e1''
     = Some ((escrow1 ''shipped'')\<lparr>e_status := ''released'', e_updated_at := 9\<rparr>)
   \<and> payouts (snd (disputes_resolve 9 ''p1'' ''a1'' root ''d1''
          (Some \<lparr>rb_decision = Some ''favor_seller'', rb_note = None\<rparr>)
          (store2 ''shipped'' ''verified'' ''open'')))
     = [simulated_payout ''p1'' ''e1'']
   \<and> select_dispute (snd (disputes_resolve 9 ''p1'' ''a1'' root ''d1''
          (Some \<lparr>rb_decision = Some ''favor_seller'', rb_note = None\<rparr>)
          (store2 ''shipped'' ''verified'' ''open''))) ''d1''
     = Some ((dispute1 ''open'')\<lparr>d_status := ''resolved'', d_resolved_at := Some 9\<rparr>)
   \<and> status_code (fst (disputes_resolve 9 ''p1'' ''a1'' root ''d1''
          (Some \<lparr>rb_decision = Some ''favor_seller'', rb_note = None\<rparr>)
          (store2 ''shipped'' ''verified'' ''resolved''))) = 400
   \<and> snd (disputes_resolve 9 ''p1'' ''a1'' root ''d1''
          (Some \<lparr>rb_decision = Some ''favor_seller'', rb_note = None\<rparr>)
          (store2 ''shipped'' ''verified'' ''resolved''))
     = store2 ''shipped'' ''verified'' ''resolved''"
proof -
  have admin: "au_role root = ''admin''"
    by (simp add: root_def)
  have d: "select_dispute (store2 ''shipped'' ''verified'' st) ''d1'' = Some (dispute1 st)" for st
    by (simp add: select_dispute_def store2_def dispute1_def)
  have e: "select_escrow (store2 ''shipped'' ''verified'' st) (d_escrow_id (dispute1 st))
             = Some (escrow1 ''shipped'')" for st
    by (simp add: select_escrow_def store2_def store1_def dispute1_def escrow1_def)
  have kyc: "kyc_verified (store2 ''shipped'' ''verified'' ''open'') (e_seller_id (escrow1 ''shipped''))"
    by (simp add: kyc_verified_def select_user_def store2_def store1_def escrow1_def)
  have pay: "payouts (store2 ''shipped'' ''verified'' ''open'') = []"
    by (simp add: store2_def store1_def)
  have st: "d_status (dispute1 ''open'') = ''open''" "d_status (dispute1 ''resolved'') \<noteq> ''open''"
    "d_escrow_id (dispute1 ''open'') = ''e1''"
    by (simp_all add: dispute1_def)
  show ?thesis
    using disputes_resolve_favor_seller
        [where b = "\<lparr>rb_decision = Some ''favor_seller'', rb_note = None\<rparr>" and now = 9
           and payoutId = "''p1''" and auditId = "''a1''",
         OF admin d [of "''open''"] e [of "''open''"]]
      disputes_resolve_favor_seller
        [where b = "\<lparr>rb_decision = Some ''favor_seller'', rb_note = None\<rparr>" and now = 9
           and payoutId = "''p1''" and auditId = "''a1''",
         OF admin d [of "''resolved''"] e [of "''resolved''"]]
      kyc pay st
    by simp
qed

text \<open>
  Claim C6. An admin's resolve request with decision \<open>favor_buyer\<close> on an open dispute sets
  the dispute's status to \<open>resolved\<close>, leaves every escrow row as it was and adds no payout
  row (the payout table is as it was).
\<close>

theorem disputes_resolve_favor_buyer:
  assumes "au_role u = ''admin''"
    and "rb_decision b = Some ''favor_buyer''"
    and "select_dispute s disputeId = Some d"
    and "d_status d = ''open''"
    and "select_escrow s (d_escrow_id d) = Some e"
  shows "fst (disputes_resolve now payoutId auditId u disputeId (Some b) s)
           = Response 200 ''Dispute resolved successfully''
       \<and> select_dispute (snd (disputes_resolve now payoutId auditId u disputeId (Some b) s))
            disputeId
           = Some (d\<lparr>d_status := ''resolved'', d_resolved_at := Some now\<rparr>)
       \<and> escrow_transactions (snd (disputes_resolve now payoutId auditId u disputeId (Some b) s))
           = escrow_transactions s
       \<and> payouts (snd (disputes_resolve now payoutId auditId u disputeId (Some b) s))
           = payouts s"
proof -
  have key: "d_id d = disputeId"
    using assms(3) by (auto simp: select_dispute_def dest: find_Some_iff[THEN iffD1])
  have join: "select_dispute_escrow s disputeId = Some (d, e)"
    using assms by (simp add: select_dispute_escrow_def)
  have run: "disputes_resolve now payoutId auditId u disputeId (Some b) s
               = resolve_finish now auditId u disputeId b s"
    using assms(1,2,4) join
    by (simp add: disputes_resolve_def truthy_str_def str_val_def)
  show ?thesis
    using assms(3) key by (simp add: run resolve_finish_tables)
qed

theorem disputes_resolve_favor_buyer_witness:
  "fst (disputes_resolve 9 ''p1'' ''a1'' root ''d1''
          (Some \<lparr>rb_decision = Some ''favor_buyer'', rb_note = Some ''refund the buyer''\<rparr>)
          (store2 ''shipped'' ''pending'' ''open''))
     = Response 200 ''Dispute resolved successfully''
   \<and> select_dispute (snd (disputes_resolve 9 ''p1'' ''a1'' root ''d1''
          (Some \<lparr>rb_decision = Some ''favor_buyer'', rb_note = Some ''refund the buyer''\<rparr>)
          (store2 ''shipped'' ''pending'' ''open''))) ''d1''
     = Some ((dispute1 ''open'')\<lparr>d_status := ''resolved'', d_resolved_at := Some 9\<rparr>)
   \<and> escrow_transactions (snd (disputes_resolve 9 ''p1'' ''a1'' root ''d1''
          (Some \<lparr>rb_decision = Some ''favor_buyer'', rb_note = Some ''refund the buyer''\<rparr>)
          (store2 ''shipped'' ''pending'' ''open'')))
     = [escrow1 ''shipped'']
   \<and> payouts (snd (disputes_resolve 9 ''p1'' ''a1'' root ''d1''
          (Some \<lparr>rb_decision = Some ''favor_buyer'', rb_note = Some ''refund the buyer''\<rparr>)
          (store2 ''shipped'' ''pending'' ''open'')))
     = []"
proof -
  have admin: "au_role root = ''admin''"
    by (simp add: root_def)
  have dec: "rb_decision \<lparr>rb_decision = Some ''favor_buyer'', rb_note = Some ''refund the buyer''\<rparr>
               = Some ''favor_buyer''"
    by simp
  have d: "select_dispute (store2 ''shipped'' ''pending'' ''open'') ''d1'' = Some (dispute1 ''open'')"
    by (simp add: select_dispute_def store2_def dispute1_def)
  have opn: "d_status (dispute1 ''open'') = ''open''"
    by (simp add: dispute1_def)
  have e: "select_escrow (store2 ''shipped'' ''pending'' ''open'') (d_escrow_id (dispute1 ''open''))
             = Some (escrow1 ''shipped'')"
    by (simp add: select_escrow_def store2_def store1_def dispute1_def escrow1_def)
  show ?thesis
    using disputes_resolve_favor_buyer
        [where now = 9 and payoutId = "''p1''" and auditId = "''a1''", OF admin dec d opn e]
    by (simp add: store2_def store1_def)
qed










text \<open>
  Claim C8, as amended. A dispute-open request on an existing escrow succeeds (201, one new
  dispute row, with status \<open>open\<close>) if and only if its body carries a non-empty reason, the
  caller is the \<open>buyer_id\<close> or the \<open>seller_id\<close> of the escrow and the status of the escrow
  is \<open>funded\<close>, \<open>shipped\<close> or \<open>confirmed\<close>. A request without a body is answered 500; a
  request whose body has no reason, 400; with a reason and a wrong party, 403; with a reason,
  a right party and another status, 400. A request that does not succeed changes nothing,
  and in every case the escrow rows are unchanged.
\<close>

theorem escrow_dispute_opens_iff:
  assumes "select_escrow s escrowId = Some e"
  shows "let r = fst (escrow_dispute now disputeId auditId u escrowId body s);
             s' = snd (escrow_dispute now disputeId auditId u escrowId body s);
             reason = (case body of None \<Rightarrow> None | Some b \<Rightarrow> db_reason b);
             party = (au_id u = e_buyer_id e \<or> au_id u = e_seller_id e);
             active = (e_status e = ''funded'' \<or> e_status e = ''shipped'' \<or> e_status e = ''confirmed'')
         in (r = Response 201 ''Dispute opened successfully''
               \<longleftrightarrow> truthy_str reason \<and> party \<and> active)
          \<and> (status_code r = 201 \<longrightarrow>
                disputes s' = disputes s @
                  [\<lparr>d_id = disputeId, d_escrow_id = escrowId, d_opened_by = au_id u,
                    d_reason = str_val reason, d_status = ''open'', d_created_at = now,
                    d_updated_at = None, d_resolved_at = None\<rparr>])
          \<and> (status_code r \<noteq> 201 \<longrightarrow> s' = s)
          \<and> (body = None \<longrightarrow> status_code r = 500)
          \<and> (body \<noteq> None \<and> \<not> truthy_str reason \<longrightarrow> status_code r = 400)
          \<and> (truthy_str reason \<and> \<not> party \<longrightarrow> status_code r = 403)
          \<and> (truthy_str reason \<and> party \<and> \<not> active \<longrightarrow> status_code r = 400)
          \<and> escrow_transactions s' = escrow_transactions s"
proof (cases body)
  case None
  then show ?thesis
    by (simp add: escrow_dispute_def truthy_str_def)
next
  case (Some b)
  then show ?thesis
    using assms
    by (auto simp: escrow_dispute_def Let_def insert_dispute_def audit_def)
qed

theorem escrow_dispute_opens_iff_witness:
  "fst (escrow_dispute 5 ''d1'' ''a1'' alice ''e1'' (Some \<lparr>db_reason = Some ''not received''\<rparr>)
          (store1 ''shipped'' ''verified''))
     = Response 201 ''Dispute opened successfully''
   \<and> disputes (snd (escrow_dispute 5 ''d1'' ''a1'' alice ''e1''
          (Some \<lparr>db_reason = Some ''not received''\<rparr>) (store1 ''shipped'' ''verified'')))
     = [\<lparr>d_id = ''d1'', d_escrow_id = ''e1'', d_opened_by = ''alice'',
         d_reason = ''not received'', d_status = ''open'', d_created_at = 5,
         d_updated_at = None, d_resolved_at = None\<rparr>]
   \<and> escrow_transactions (snd (escrow_dispute 5 ''d1'' ''a1'' alice ''e1''
          (Some \<lparr>db_reason = Some ''not received''\<rparr>) (store1 ''shipped'' ''verified'')))
     = [escrow1 ''shipped'']
   \<and> status_code (fst (escrow_dispute 5 ''d1'' ''a1'' mallory ''e1''
          (Some \<lparr>db_reason = Some ''not received''\<rparr>) (store1 ''shipped'' ''verified''))) = 403
   \<and> status_code (fst (escrow_dispute 5 ''d1'' ''a1'' alice ''e1''
          (Some \<lparr>db_reason = Some ''not received''\<rparr>) (store1 ''created'' ''verified''))) = 400
   \<and> status_code (fst (escrow_dispute 5 ''d1'' ''a1'' alice ''e1'' None
          (store1 ''shipped'' ''verified''))) = 500
   \<and> snd (escrow_dispute 5 ''d1'' ''a1'' alice ''e1'' None (store1 ''shipped'' ''verified''))
     = store1 ''shipped'' ''verified''"
proof -
  have e: "select_escrow (store1 st ''verified'') ''e1'' = Some (escrow1 st)" for st
    by (simp add: select_escrow_def store1_def escrow1_def)
  show ?thesis
    using escrow_dispute_opens_iff
        [where now = 5 and disputeId = "''d1''" and auditId = "''a1''" and u = alice
           and body = "Some \<lparr>db_reason = Some ''not received''\<rparr>", OF e [of "''shipped''"]]
      escrow_dispute_opens_iff
        [where now = 5 and disputeId = "''d1''" and auditId = "''a1''" and u = mallory
           and body = "Some \<lparr>db_reason = Some ''not received''\<rparr>", OF e [of "''shipped''"]]
      escrow_dispute_opens_iff
        [where now = 5 and disputeId = "''d1''" and auditId = "''a1''" and u = alice
           and body = "Some \<lparr>db_reason = Some ''not received''\<rparr>", OF e [of "''created''"]]
      escrow_dispute_opens_iff
        [where now = 5 and disputeId = "''d1''" and auditId = "''a1''" and u = alice
           and body = None, OF e [of "''shipped''"]]
    by (simp add: Let_def truthy_str_def str_val_def alice_def mallory_def escrow1_def store1_def)
qed

text \<open>
  The claim as stated fails on a request without a reason: Alice is the buyer of the funded
  escrow, and her request is answered 400 and opens no dispute.
\<close>

theorem escrow_dispute_opens_iff_counterexample:
  "au_id alice = e_buyer_id (escrow1 ''funded'')
   \<and> e_status (escrow1 ''funded'') = ''funded''
   \<and> select_escrow (store1 ''funded'' ''verified'') ''e1'' = Some (escrow1 ''funded'')
   \<and> escrow_dispute 5 ''d1'' ''a1'' alice ''e1'' (Some \<lparr>db_reason = None\<rparr>) (store1 ''funded'' ''verified'')
       = (Response 400 ''Reason is required'', store1 ''funded'' ''verified'')"
  by (simp add: escrow_dispute_def alice_def escrow1_def store1_def select_escrow_def truthy_str_def)

text \<open>
  Claim C9. Escrow creation with the ids in the body answers 201 and inserts a row with
  status \<open>created\<close> for every caller whose token has role buyer or seller and who sends a
  non-empty \<open>buyer_id\<close>, a non-empty \<open>seller_id\<close> and an amount (present and not zero, the
  test \<open>!amount\<close> of the source). The store and the caller are arbitrary: the two ids need
  not be ids of users, they may be equal, and the caller need not be one of them. The row
  carries the ids exactly as sent.
\<close>

theorem escrow_create_unchecked_parties:
  assumes "cb_buyer_id b = Some bid" and "bid \<noteq> []"
    and "cb_seller_id b = Some sid" and "sid \<noteq> []"
    and "cb_amount b = Some amt" and "amt \<noteq> 0"
    and "au_role u = ''buyer'' \<or> au_role u = ''seller''"
  shows "fst (escrow_create now escrowId auditId u (Some b) s)
           = Response 201 ''Escrow created successfully''
    \<and> escrow_transactions (snd (escrow_create now escrowId auditId u (Some b) s)) =
        escrow_transactions s @
          [\<lparr>e_id = escrowId, e_buyer_id = bid, e_seller_id = sid, e_amount = amt,
            e_currency = str_or (cb_currency b) ''IDR'', e_status = ''created'',
            e_created_at = now, e_updated_at = now, e_seller_proof_url = None,
            e_seller_receipt_number = None, e_buyer_proof_url = None\<rparr>]"
  using assms
  by (auto simp: escrow_create_def Let_def truthy_str_def truthy_num_def str_or_def num_val_def
      insert_escrow_def audit_def)

theorem escrow_create_unchecked_parties_witness:
  "fst (escrow_create 7 ''e1'' ''a1''
          \<lparr>au_id = ''carol'', au_email = ''c@x'', au_role = ''seller''\<rparr>
          (Some \<lparr>cb_buyer_id = Some ''nobody'', cb_seller_id = Some ''nobody'',
            cb_amount = Some 100, cb_currency = None\<rparr>)
          \<lparr>users = [], escrow_transactions = [], payment_intents = [], payouts = [],
            disputes = [], webhook_events = [], audit_logs = []\<rparr>)
     = Response 201 ''Escrow created successfully''
   \<and> escrow_transactions (snd (escrow_create 7 ''e1'' ''a1''
          \<lparr>au_id = ''carol'', au_email = ''c@x'', au_role = ''seller''\<rparr>
          (Some \<lparr>cb_buyer_id = Some ''nobody'', cb_seller_id = Some ''nobody'',
            cb_amount = Some 100, cb_currency = None\<rparr>)
          \<lparr>users = [], escrow_transactions = [], payment_intents = [], payouts = [],
            disputes = [], webhook_events = [], audit_logs = []\<rparr>))
     = [\<lparr>e_id = ''e1'', e_buyer_id = ''nobody'', e_seller_id = ''nobody'', e_amount = 100,
         e_currency = ''IDR'', e_status = ''created'', e_created_at = 7, e_updated_at = 7,
         e_seller_proof_url = None, e_seller_receipt_number = None, e_buyer_proof_url = None\<rparr>]"
  using escrow_create_unchecked_parties
    [of "\<lparr>cb_buyer_id = Some ''nobody'', cb_seller_id = Some ''nobody'',
            cb_amount = Some 100, cb_currency = None\<rparr>" "''nobody''" "''nobody''" 100
        "\<lparr>au_id = ''carol'', au_email = ''c@x'', au_role = ''seller''\<rparr>" 7 "''e1''" "''a1''"
        "\<lparr>users = [], escrow_transactions = [], payment_intents = [], payouts = [],
            disputes = [], webhook_events = [], audit_logs = []\<rparr>"]
  by (simp add: str_or_def)

end
